theory Spec2Isabelle
  imports Complex_Main
begin

section \<open>Python values and strings\<close>

text \<open>
  The values \<open>resp.json()\<close> hands to \<open>fetcher\<close> and that \<open>json.dump\<close> receives:
  \<open>None\<close>, booleans, unbounded integers, strings, lists and dictionaries with string
  keys (an association list in insertion order, the keys pairwise distinct as in a Python
  \<open>dict\<close>). Floating-point numbers are left out of the model. A \<open>char\<close> stands for one
  code point below 256.
\<close>

datatype pyval =
    PNone
  | PBool bool
  | PInt int
  | PStr string
  | PList "pyval list"
  | PDict "(string \<times> pyval) list"

text \<open>Truth value testing, as in \<open>if repos:\<close> and \<open>if not items:\<close>.\<close>

fun truthy :: "pyval \<Rightarrow> bool" where
  "truthy PNone = False"
| "truthy (PBool b) = b"
| "truthy (PInt n) = (n \<noteq> 0)"
| "truthy (PStr s) = (s \<noteq> [])"
| "truthy (PList xs) = (xs \<noteq> [])"
| "truthy (PDict kvs) = (kvs \<noteq> [])"

text \<open>\<open>d.get(k)\<close>: the value stored under \<open>k\<close>, \<open>None\<close> when the key is absent.\<close>

definition dict_get :: "(string \<times> pyval) list \<Rightarrow> string \<Rightarrow> pyval" where
  "dict_get d k = (case map_of d k of None \<Rightarrow> PNone | Some v \<Rightarrow> v)"

text \<open>\<open>str.lower\<close>, \<open>str.isspace\<close> and \<open>str.strip\<close> on code points below 256.\<close>

definition lower_char :: "char \<Rightarrow> char" where
  "lower_char c =
     (let n = (of_char c :: nat)
      in if (65 \<le> n \<and> n \<le> 90) \<or> (192 \<le> n \<and> n \<le> 222 \<and> n \<noteq> 215)
         then char_of (n + 32) else c)"

definition py_lower :: "string \<Rightarrow> string" where
  "py_lower s = map lower_char s"

definition is_space :: "char \<Rightarrow> bool" where
  "is_space c = ((of_char c :: nat) \<in> {9, 10, 11, 12, 13, 28, 29, 30, 31, 32, 133, 160})"

definition py_strip :: "string \<Rightarrow> string" where
  "py_strip s = rev (dropWhile is_space (rev (dropWhile is_space s)))"

text \<open>\<open>sub in s\<close> for strings.\<close>

fun starts_with :: "string \<Rightarrow> string \<Rightarrow> bool" where
  "starts_with [] s = True"
| "starts_with (p # ps) [] = False"
| "starts_with (p # ps) (c # cs) = (p = c \<and> starts_with ps cs)"

fun str_contains :: "string \<Rightarrow> string \<Rightarrow> bool" where
  "str_contains sub [] = (sub = [])"
| "str_contains sub (c # cs) = (starts_with sub (c # cs) \<or> str_contains sub cs)"

section \<open>Exceptions and printed lines\<close>

text \<open>
  The exceptions that can reach the handlers of \<open>fetcher\<close>, by the handler that
  catches them: \<open>Timeout\<close>, \<open>ConnectionError\<close>, any other \<open>RequestException\<close>
  (\<open>HTTPError\<close> from \<open>raise_for_status\<close> among them), and everything else under
  \<open>Exception\<close>.
\<close>

datatype exn =
    Timeout
  | ConnectionError
  | HTTPError
  | RequestException
  | ValueError
  | OverflowError
  | AttributeError
  | TypeError
  | OSError
  | EOFError

text \<open>
  A line on standard output: a fixed text, \<open>print(e)\<close> of a caught exception, or a
  fixed text followed by the message of a caught exception.
\<close>

datatype out_line = Line string | ExnLine exn | Line_with_exn string exn

section \<open>Integers from strings, and decimal numerals\<close>

definition is_digit :: "char \<Rightarrow> bool" where
  "is_digit c = (c \<in> set ''0123456789'')"

definition digit_val :: "char \<Rightarrow> nat" where
  "digit_val c = of_char c - 48"

definition digit_char :: "nat \<Rightarrow> char" where
  "digit_char n = ''0123456789'' ! n"

text \<open>
  The digits of \<open>int(s)\<close> after the sign: at least one digit, and an underscore only
  between two digits. The accumulator holds the value read so far.
\<close>

fun int_digits :: "nat \<Rightarrow> string \<Rightarrow> nat option" where
  "int_digits acc [] = Some acc"
| "int_digits acc [c] = (if is_digit c then Some (10 * acc + digit_val c) else None)"
| "int_digits acc (c # d # cs) =
     (if is_digit c then int_digits (10 * acc + digit_val c) (d # cs)
      else if c = CHR ''_'' \<and> is_digit d then int_digits (10 * acc + digit_val d) cs
      else None)"

definition unsigned_int :: "string \<Rightarrow> nat option" where
  "unsigned_int s =
     (case s of [] \<Rightarrow> None
      | c # cs \<Rightarrow> if is_digit c then int_digits (digit_val c) cs else None)"

text \<open>
  The whitespace that \<open>int\<close> skips around a numeral: the blank and the control characters
  U+0009 to U+000D, and the whitespace above U+007F (which \<open>int\<close> first turns into
  blanks). The separators U+001C to U+001F, which \<open>str.strip\<close> removes, are not skipped.
\<close>

definition is_int_space :: "char \<Rightarrow> bool" where
  "is_int_space c = ((of_char c :: nat) \<in> {9, 10, 11, 12, 13, 32, 133, 160})"

text \<open>The default of \<open>sys.get_int_max_str_digits()\<close>.\<close>

definition int_max_str_digits :: nat where
  "int_max_str_digits = 4300"

text \<open>
  \<open>int(s)\<close> for a string: surrounding whitespace is dropped and one sign is allowed;
  anything else raises \<open>ValueError\<close>, and so does a numeral of more than
  \<open>int_max_str_digits\<close> digits (leading zeros counted, underscores not).
\<close>

definition py_int :: "string \<Rightarrow> exn + int" where
  "py_int s =
     (case rev (dropWhile is_int_space (rev (dropWhile is_int_space s))) of
        [] \<Rightarrow> Inl ValueError
      | c # cs \<Rightarrow>
          let digits = (if c = CHR ''-'' \<or> c = CHR ''+'' then cs else c # cs)
          in (case unsigned_int digits of
                None \<Rightarrow> Inl ValueError
              | Some n \<Rightarrow>
                  if int_max_str_digits < length (filter is_digit digits) then Inl ValueError
                  else Inr (if c = CHR ''-'' then - int n else int n)))"

fun show_nat :: "nat \<Rightarrow> string" where
  "show_nat n =
     (if n < 10 then [digit_char n] else show_nat (n div 10) @ [digit_char (n mod 10)])"

declare show_nat.simps [simp del]

definition show_int :: "int \<Rightarrow> string" where
  "show_int i = (if i < 0 then CHR ''-'' # show_nat (nat (- i)) else show_nat (nat i))"

text \<open>A number left-padded with zeros to a width, as \<open>%d\<close>, \<open>%I\<close>, \<open>%M\<close> and \<open>%S\<close> do.\<close>

definition zero_pad :: "nat \<Rightarrow> nat \<Rightarrow> string" where
  "zero_pad w n = replicate (w - length (show_nat n)) (CHR ''0'') @ show_nat n"

section \<open>Dates and times\<close>

text \<open>
  A \<open>datetime\<close> in UTC, held as the proleptic Gregorian ordinal of its day (day 1 is
  1 January of year 1) and the second within the day. The calendar fields are computed
  from the ordinal the way the \<open>datetime\<close> module does.
\<close>

record datetime =
  ordinal :: int
  second_of_day :: int

definition MAXORDINAL :: int where
  "MAXORDINAL = 3652059"

definition EPOCH_ORDINAL :: int where
  "EPOCH_ORDINAL = 719163"

definition DAYS_BEFORE_MONTH :: "int list" where
  "DAYS_BEFORE_MONTH = [-1, 0, 31, 59, 90, 120, 151, 181, 212, 243, 273, 304, 334]"

definition DAYS_IN_MONTH :: "int list" where
  "DAYS_IN_MONTH = [-1, 31, 28, 31, 30, 31, 30, 31, 31, 30, 31, 30, 31]"

text \<open>Year, month and day of an ordinal.\<close>

definition ord2ymd :: "int \<Rightarrow> int \<times> int \<times> int" where
  "ord2ymd n0 =
     (let n = n0 - 1;
          n400 = n div 146097; n = n mod 146097;
          n100 = n div 36524; n = n mod 36524;
          n4 = n div 1461; n = n mod 1461;
          n1 = n div 365; n = n mod 365;
          year = n400 * 400 + 1 + n100 * 100 + n4 * 4 + n1
      in if n1 = 4 \<or> n100 = 4 then (year - 1, 12, 31)
         else
           let leapyear = (n1 = 3 \<and> (n4 \<noteq> 24 \<or> n100 = 3));
               month = (n + 50) div 32;
               preceding = DAYS_BEFORE_MONTH ! nat month
                           + (if month > 2 \<and> leapyear then 1 else 0)
           in if preceding > n then
                (year, month - 1,
                 n - (preceding - (DAYS_IN_MONTH ! nat (month - 1)
                                   + (if month - 1 = 2 \<and> leapyear then 1 else 0))) + 1)
              else (year, month, n - preceding + 1))"

text \<open>
  The range of the 64-bit \<open>time_t\<close>, and the times that \<open>gmtime\<close> of the C library
  converts (its year field is a 32-bit integer counted from 1900).
\<close>

definition TIME_T_MIN :: int where
  "TIME_T_MIN = - 9223372036854775808"

definition TIME_T_MAX :: int where
  "TIME_T_MAX = 9223372036854775807"

definition GMTIME_MIN :: int where
  "GMTIME_MIN = - 67768040609740800"

definition GMTIME_MAX :: int where
  "GMTIME_MAX = 67768036191676799"

text \<open>
  \<open>datetime.fromtimestamp(t, tz=timezone.utc)\<close> for an integer \<open>t\<close>. A time that does
  not fit \<open>time_t\<close> raises \<open>OverflowError\<close>, one that \<open>gmtime\<close> cannot convert raises
  \<open>OSError\<close>, and one outside the years 1 to 9999 raises \<open>ValueError\<close>.
\<close>

definition utc_fromtimestamp :: "int \<Rightarrow> exn + datetime" where
  "utc_fromtimestamp t =
     (if t < TIME_T_MIN \<or> TIME_T_MAX < t then Inl OverflowError
      else if t < GMTIME_MIN \<or> GMTIME_MAX < t then Inl OSError
      else
        let d = t div 86400 + EPOCH_ORDINAL
        in if 0 < d \<and> d \<le> MAXORDINAL
           then Inr \<lparr>ordinal = d, second_of_day = t mod 86400\<rparr>
           else Inl ValueError)"

text \<open>\<open>timedelta(hours=h, minutes=m)\<close> in seconds, and \<open>datetime + timedelta\<close>.\<close>

definition timedelta :: "int \<Rightarrow> int \<Rightarrow> int" where
  "timedelta h m = h * 3600 + m * 60"

definition datetime_add :: "datetime \<Rightarrow> int \<Rightarrow> exn + datetime" where
  "datetime_add dt delta =
     (let s = second_of_day dt + delta;
          d = ordinal dt + s div 86400
      in if 0 < d \<and> d \<le> MAXORDINAL
         then Inr \<lparr>ordinal = d, second_of_day = s mod 86400\<rparr>
         else Inl OverflowError)"

definition month_abbr :: "string list" where
  "month_abbr = [''Jan'', ''Feb'', ''Mar'', ''Apr'', ''May'', ''Jun'',
                 ''Jul'', ''Aug'', ''Sep'', ''Oct'', ''Nov'', ''Dec'']"

text \<open>
  \<open>strftime("%d-%b-%Y %I:%M:%S %p IST")\<close> in the C locale. The C library writes the year
  of \<open>%Y\<close> without padding, so a year below 1000 has fewer than four digits.
\<close>

definition strftime_ist :: "datetime \<Rightarrow> string" where
  "strftime_ist dt =
     (case ord2ymd (ordinal dt) of (year, month, day) \<Rightarrow>
        let hour = second_of_day dt div 3600;
            minute = second_of_day dt mod 3600 div 60;
            second = second_of_day dt mod 60;
            hour12 = (if hour mod 12 = 0 then 12 else hour mod 12)
        in zero_pad 2 (nat day) @ ''-'' @ month_abbr ! nat (month - 1) @ ''-''
           @ show_nat (nat year) @ '' ''
           @ zero_pad 2 (nat hour12) @ '':'' @ zero_pad 2 (nat minute) @ '':''
           @ zero_pad 2 (nat second) @ '' ''
           @ (if hour < 12 then ''AM'' else ''PM'') @ '' IST'')"

definition convert_reset_to_ist :: "int \<Rightarrow> exn + string" where
  "convert_reset_to_ist reset_timestamp =
     (case utc_fromtimestamp reset_timestamp of
        Inl e \<Rightarrow> Inl e
      | Inr utc_time \<Rightarrow>
          let ist_offset = timedelta 5 30
          in (case datetime_add utc_time ist_offset of
                Inl e \<Rightarrow> Inl e
              | Inr ist_time \<Rightarrow> Inr (strftime_ist ist_time)))"

section \<open>Requests and responses\<close>

text \<open>
  One call \<open>session.get(url, params=params, timeout=(2, 10))\<close>: the URL, the five query
  parameters and the two timeouts.
\<close>

record request =
  req_url :: string
  param_type :: string
  param_sort :: string
  param_direction :: string
  param_per_page :: nat
  param_page :: nat
  timeout_connect :: nat
  timeout_read :: nat

text \<open>
  What \<open>fetcher\<close> reads of a response: the status code, the headers (looked up without
  regard to case, so the map is keyed by lower-case names) and the result of
  \<open>resp.json()\<close>, \<open>None\<close> when that call raises its \<open>ValueError\<close>.
\<close>

record response =
  status_code :: nat
  headers :: "string \<rightharpoonup> string"
  json_body :: "pyval option"

definition headers_get :: "response \<Rightarrow> string \<Rightarrow> string option" where
  "headers_get resp name = headers resp (py_lower name)"

text \<open>\<open>resp.headers.get("Content-Type", "")\<close>.\<close>

definition content_type :: "response \<Rightarrow> string" where
  "content_type resp = (case headers_get resp ''Content-Type'' of None \<Rightarrow> [] | Some v \<Rightarrow> v)"

text \<open>The statuses on which \<open>resp.raise_for_status()\<close> raises \<open>HTTPError\<close>.\<close>

definition http_error :: "nat \<Rightarrow> bool" where
  "http_error status = (400 \<le> status \<and> status < 600)"

text \<open>The outcome of one \<open>session.get\<close>: a response, or an exception.\<close>

datatype get_result = Got response | Raised exn

definition get_url :: "string \<Rightarrow> string" where
  "get_url user = (let base_url = ''https://api.github.com''
                   in base_url @ ''/users/'' @ user @ ''/repos'')"

definition make_request :: "string \<Rightarrow> nat \<Rightarrow> request" where
  "make_request url page =
     \<lparr>req_url = url, param_type = ''owner'', param_sort = ''updated'',
      param_direction = ''desc'', param_per_page = 30, param_page = page,
      timeout_connect = 2, timeout_read = 10\<rparr>"

section \<open>The fetcher\<close>

text \<open>The record built for one repository object (lines 76 to 83).\<close>

definition summary :: "(string \<times> pyval) list \<Rightarrow> pyval" where
  "summary repo =
     PDict [(''name'', dict_get repo ''name''),
            (''description'', dict_get repo ''description''),
            (''stars'', dict_get repo ''stargazers_count''),
            (''language'', dict_get repo ''language''),
            (''created_at'', dict_get repo ''created_at''),
            (''updated_at'', dict_get repo ''updated_at'')]"

text \<open>
  The body of \<open>for repo in items\<close> over the elements of a list: \<open>repo.get\<close> exists on
  dictionaries only, and raises \<open>AttributeError\<close> on every other value.
\<close>

fun append_summaries :: "pyval list \<Rightarrow> pyval list \<Rightarrow> exn + pyval list" where
  "append_summaries [] all_items = Inr all_items"
| "append_summaries (PDict repo # rest) all_items =
     append_summaries rest (all_items @ [summary repo])"
| "append_summaries (v # rest) all_items = Inl AttributeError"

text \<open>
  The whole \<open>for\<close> loop on a truthy \<open>items\<close>: a list is walked; a dictionary yields its
  keys and a string its characters, which are strings without \<open>get\<close>; a number or
  \<open>True\<close> cannot be iterated.
\<close>

fun for_repo_in :: "pyval \<Rightarrow> pyval list \<Rightarrow> exn + pyval list" where
  "for_repo_in (PList xs) all_items = append_summaries xs all_items"
| "for_repo_in (PDict kvs) all_items =
     (if kvs = [] then Inr all_items else Inl AttributeError)"
| "for_repo_in (PStr s) all_items =
     (if s = [] then Inr all_items else Inl AttributeError)"
| "for_repo_in v all_items = Inl TypeError"

fun py_len :: "pyval \<Rightarrow> nat" where
  "py_len (PList xs) = length xs"
| "py_len (PDict kvs) = length kvs"
| "py_len (PStr s) = length s"
| "py_len v = 0"

text \<open>How one pass through the body of \<open>while True\<close> ends.\<close>

datatype step =
    Return_None out_line
  | Raise exn
  | Break "pyval list"
  | Next_page "pyval list"

definition handle_response :: "response \<Rightarrow> pyval list \<Rightarrow> step" where
  "handle_response resp all_items =
     (if status_code resp = 403 then
        (case headers_get resp ''X-RateLimit-Reset'' of
           None \<Rightarrow> Return_None (Line ''Rate limit exceeded. No reset time provided.'')
         | Some reset_ts \<Rightarrow>
             if reset_ts \<noteq> [] then
               (case py_int reset_ts of
                  Inl e \<Rightarrow> Raise e
                | Inr n \<Rightarrow>
                    (case convert_reset_to_ist n of
                       Inl e \<Rightarrow> Raise e
                     | Inr reset_time \<Rightarrow>
                         Return_None
                           (Line (''Rate limit exceeded. It will reset at: '' @ reset_time))))
             else Return_None (Line ''Rate limit exceeded. No reset time provided.''))
      else if http_error (status_code resp) then Raise HTTPError
      else
        let ctype = content_type resp
        in if \<not> str_contains ''application/json'' (py_lower ctype) then
             Return_None (Line ''Not JSON'')
           else
             (case json_body resp of
                None \<Rightarrow> Return_None (Line ''Invalid JSON'')
              | Some items \<Rightarrow>
                  if \<not> truthy items then Break all_items
                  else
                    (case for_repo_in items all_items of
                       Inl e \<Rightarrow> Raise e
                     | Inr all_items' \<Rightarrow>
                         if py_len items < 30 then Break all_items'
                         else Next_page all_items')))"

text \<open>
  How the \<open>while True\<close> loop is left: by \<open>return None\<close> after a printed line, by an
  exception, or by \<open>break\<close> with the accumulated records.
\<close>

datatype loop_exit =
    Exit_None out_line
  | Exit_Raise exn
  | Exit_Break "pyval list"

text \<open>
  The loop, from a page number and the records so far. \<open>session_get\<close> is the session with
  its retrying adapter; \<open>sent\<close> records every call made to it, in order. The loop has no
  bound of its own, so it is a partial function: \<open>None\<close> means it never ends.
\<close>

partial_function (option) fetch_loop ::
  "(request \<Rightarrow> get_result) \<Rightarrow> string \<Rightarrow> nat \<Rightarrow> pyval list \<Rightarrow> request list
     \<Rightarrow> (loop_exit \<times> request list) option" where
  "fetch_loop session_get url page all_items sent =
     (let req = make_request url page; sent' = sent @ [req]
      in case session_get req of
           Raised e \<Rightarrow> Some (Exit_Raise e, sent')
         | Got resp \<Rightarrow>
             (case handle_response resp all_items of
                Return_None l \<Rightarrow> Some (Exit_None l, sent')
              | Raise e \<Rightarrow> Some (Exit_Raise e, sent')
              | Break all_items' \<Rightarrow> Some (Exit_Break all_items', sent')
              | Next_page all_items' \<Rightarrow>
                  fetch_loop session_get url (page + 1) all_items' sent'))"

text \<open>What one call of \<open>fetcher\<close> does: its return value, what it printed, what it requested.\<close>

record fetched =
  result :: "pyval list option"
  printed :: "out_line list"
  requests :: "request list"

text \<open>The handlers of the outer \<open>try\<close>, in their order.\<close>

definition handler_line :: "exn \<Rightarrow> out_line" where
  "handler_line e =
     (if e = Timeout then Line ''Request timed out.''
      else if e = ConnectionError then Line ''Connection error''
      else ExnLine e)"

definition fetcher :: "(request \<Rightarrow> get_result) \<Rightarrow> string \<Rightarrow> fetched option" where
  "fetcher session_get username =
     (case fetch_loop session_get (get_url username) 1 [] [] of
        None \<Rightarrow> None
      | Some (ex, sent) \<Rightarrow>
          Some (case ex of
                  Exit_Break all_items \<Rightarrow>
                    \<lparr>result = Some all_items, printed = [], requests = sent\<rparr>
                | Exit_None l \<Rightarrow> \<lparr>result = None, printed = [l], requests = sent\<rparr>
                | Exit_Raise e \<Rightarrow>
                    \<lparr>result = None, printed = [handler_line e], requests = sent\<rparr>))"

section \<open>Writing JSON\<close>

text \<open>
  \<open>json.dump(repos, data, indent=4)\<close> with its defaults: \<open>ensure_ascii\<close> is on, so
  every character outside the printable ASCII range is escaped, and with an indent the
  separators are a comma and a colon followed by a space.
\<close>

definition hex_digit :: "nat \<Rightarrow> char" where
  "hex_digit n = ''0123456789abcdef'' ! n"

definition escape_char :: "char \<Rightarrow> string" where
  "escape_char c =
     (if c = CHR 0x22 then [CHR 0x5C, CHR 0x22]
      else if c = CHR 0x5C then [CHR 0x5C, CHR 0x5C]
      else if c = CHR 0x0A then [CHR 0x5C, CHR ''n'']
      else if c = CHR 0x0D then [CHR 0x5C, CHR ''r'']
      else if c = CHR 0x09 then [CHR 0x5C, CHR ''t'']
      else if c = CHR 0x08 then [CHR 0x5C, CHR ''b'']
      else if c = CHR 0x0C then [CHR 0x5C, CHR ''f'']
      else let n = (of_char c :: nat)
           in if 32 \<le> n \<and> n \<le> 126 then [c]
              else [CHR 0x5C, CHR ''u'', CHR ''0'', CHR ''0'',
                    hex_digit (n div 16), hex_digit (n mod 16)])"

definition encode_string :: "string \<Rightarrow> string" where
  "encode_string s = [CHR 0x22] @ concat (map escape_char s) @ [CHR 0x22]"

definition newline_indent :: "nat \<Rightarrow> string" where
  "newline_indent level = CHR 0x0A # replicate (4 * level) (CHR '' '')"

fun join :: "string \<Rightarrow> string list \<Rightarrow> string" where
  "join sep [] = []"
| "join sep [x] = x"
| "join sep (x # y # ys) = x @ sep @ join sep (y # ys)"

fun iterencode :: "nat \<Rightarrow> pyval \<Rightarrow> string" where
  "iterencode level PNone = ''null''"
| "iterencode level (PBool b) = (if b then ''true'' else ''false'')"
| "iterencode level (PInt i) = show_int i"
| "iterencode level (PStr s) = encode_string s"
| "iterencode level (PList xs) =
     (if xs = [] then ''[]''
      else ''['' @ newline_indent (level + 1)
           @ join ('','' @ newline_indent (level + 1)) (map (iterencode (level + 1)) xs)
           @ newline_indent level @ '']'')"
| "iterencode level (PDict kvs) =
     (if kvs = [] then ''{}''
      else ''{'' @ newline_indent (level + 1)
           @ join ('','' @ newline_indent (level + 1))
               (map (\<lambda>(k, v). encode_string k @ '': '' @ iterencode (level + 1) v) kvs)
           @ newline_indent level @ ''}'')"

definition json_dump_indent4 :: "pyval \<Rightarrow> string" where
  "json_dump_indent4 v = iterencode 0 v"

text \<open>The bytes of a text in UTF-8 (code points below 256 take one or two bytes).\<close>

definition utf8_char :: "char \<Rightarrow> string" where
  "utf8_char c =
     (let n = (of_char c :: nat)
      in if n < 128 then [c] else [char_of (192 + n div 64), char_of (128 + n mod 64)])"

definition utf8_encode :: "string \<Rightarrow> string" where
  "utf8_encode s = concat (map utf8_char s)"

section \<open>Files and the writer\<close>

text \<open>
  The file system: the bytes stored under each path, and the paths that \<open>open(path, "w")\<close>
  can open. Opening any other path raises \<open>OSError\<close>.
\<close>

record filesystem =
  files :: "string \<rightharpoonup> string"
  can_open :: "string \<Rightarrow> bool"

definition write_file :: "pyval list option \<Rightarrow> string \<Rightarrow> filesystem \<Rightarrow> exn + filesystem" where
  "write_file repos output_file fs =
     (case repos of
        None \<Rightarrow> Inr fs
      | Some [] \<Rightarrow> Inr fs
      | Some (r # rs) \<Rightarrow>
          if can_open fs output_file then
            Inr (fs\<lparr>files := (files fs)(output_file \<mapsto>
                                 utf8_encode (json_dump_indent4 (PList (r # rs))))\<rparr>)
          else Inl OSError)"

section \<open>The entry point\<close>

text \<open>
  A finished run: the exit status of the process, the lines on standard output and the
  file system it leaves.
\<close>

record run =
  exit_code :: nat
  stdout :: "out_line list"
  final_fs :: filesystem

text \<open>
  Non-interactive mode (lines 134 to 146). An exception of \<open>write_file\<close> is not caught
  here; the interpreter then ends the process with status 1.
\<close>

definition main_cli ::
  "(request \<Rightarrow> get_result) \<Rightarrow> string \<Rightarrow> string \<Rightarrow> filesystem \<Rightarrow> run option" where
  "main_cli session_get username output fs =
     (case fetcher session_get username of
        None \<Rightarrow> None
      | Some f \<Rightarrow>
          let out = Line (''Fetching repos for user: '' @ username) # printed f
          in Some
            (case result f of
               Some (r # rs) \<Rightarrow>
                 (case write_file (Some (r # rs)) output fs of
                    Inr fs' \<Rightarrow>
                      \<lparr>exit_code = 0,
                       stdout = out @ [Line (''Logging repos to '' @ output @ ''...''),
                                       Line (''Repos logged to '' @ output)],
                       final_fs = fs'\<rparr>
                  | Inl e \<Rightarrow>
                      \<lparr>exit_code = 1,
                       stdout = out @ [Line (''Logging repos to '' @ output @ ''...'')],
                       final_fs = fs\<rparr>)
             | None \<Rightarrow>
                 \<lparr>exit_code = 1, stdout = out @ [Line ''Error fetching data.''],
                  final_fs = fs\<rparr>
             | Some [] \<Rightarrow>
                 \<lparr>exit_code = 1, stdout = out @ [Line ''No repos or Invalid account''],
                  final_fs = fs\<rparr>))"

text \<open>The sentinel test of the interactive loop (line 154).\<close>

definition is_exit :: "string \<Rightarrow> bool" where
  "is_exit username = (py_strip (py_lower username) = ''exit'')"

definition prompt :: out_line where
  "prompt = Line ''Enter username (or 'exit' to quit): ''"

text \<open>
  One pass through the interactive loop for an input that is not the sentinel (lines 157
  to 173): the lines printed and the file system afterwards. An exception of
  \<open>write_file\<close> is caught by the handler for \<open>Exception\<close>.
\<close>

definition handle_username ::
  "(request \<Rightarrow> get_result) \<Rightarrow> string \<Rightarrow> filesystem \<Rightarrow> (out_line list \<times> filesystem) option" where
  "handle_username session_get username fs =
     (case fetcher session_get username of
        None \<Rightarrow> None
      | Some f \<Rightarrow>
          Some
            (case result f of
               Some (r # rs) \<Rightarrow>
                 (case write_file (Some (r # rs)) ''github_repos.json'' fs of
                    Inr fs' \<Rightarrow>
                      (printed f @ [Line ''Logging repos to github_repos.json...'',
                                    Line ''Repos logged to github_repos.json''], fs')
                  | Inl e \<Rightarrow>
                      (printed f @ [Line ''Logging repos to github_repos.json...'',
                                    Line_with_exn ''An Unexpected Error Occurred: '' e], fs))
             | None \<Rightarrow> (printed f @ [Line ''Error fetching data.''], fs)
             | Some [] \<Rightarrow> (printed f @ [Line ''No repos or Invalid account''], fs)))"

text \<open>
  The interactive loop over the lines typed on standard input. When the input is
  exhausted \<open>input\<close> raises \<open>EOFError\<close>, the handler for \<open>Exception\<close> prints it and the
  loop goes on asking: it does not end.
\<close>

partial_function (option) interactive ::
  "(request \<Rightarrow> get_result) \<Rightarrow> string list \<Rightarrow> out_line list \<Rightarrow> filesystem \<Rightarrow> run option" where
  "interactive session_get inputs out fs =
     (case inputs of
        [] \<Rightarrow>
          interactive session_get []
            (out @ [prompt, Line_with_exn ''An Unexpected Error Occurred: '' EOFError]) fs
      | username # rest \<Rightarrow>
          if is_exit username then
            Some \<lparr>exit_code = 0, stdout = out @ [prompt], final_fs = fs\<rparr>
          else
            (case handle_username session_get username fs of
               None \<Rightarrow> None
             | Some (lines, fs') \<Rightarrow>
                 interactive session_get rest (out @ [prompt] @ lines) fs'))"

text \<open>The parsed command line, and \<open>main\<close>.\<close>

record args =
  arg_username :: "string option"
  arg_output :: string

definition main ::
  "(request \<Rightarrow> get_result) \<Rightarrow> args \<Rightarrow> string list \<Rightarrow> filesystem \<Rightarrow> run option" where
  "main session_get a inputs fs =
     (case arg_username a of
        Some (c # cs) \<Rightarrow> main_cli session_get (c # cs) (arg_output a) fs
      | _ \<Rightarrow> interactive session_get inputs [Line ''Welcome to Github Repo Summary Extractor''] fs)"

section \<open>Pages of repository objects\<close>

text \<open>
  A response that passes every check of the loop body and whose body is a JSON list of
  the given repository objects.
\<close>

definition json_page :: "response \<Rightarrow> (string \<times> pyval) list list \<Rightarrow> bool" where
  "json_page resp repos =
     (status_code resp \<noteq> 403 \<and> \<not> http_error (status_code resp)
      \<and> str_contains ''application/json'' (py_lower (content_type resp))
      \<and> json_body resp = Some (PList (map PDict repos)))"

text \<open>The request for page \<open>p\<close> is answered by such a response.\<close>

definition page_is ::
  "(request \<Rightarrow> get_result) \<Rightarrow> string \<Rightarrow> nat \<Rightarrow> (string \<times> pyval) list list \<Rightarrow> bool" where
  "page_is session_get url p repos =
     (case session_get (make_request url p) of
        Got resp \<Rightarrow> json_page resp repos
      | Raised e \<Rightarrow> False)"

text \<open>All pages from \<open>k\<close> up to, not including, \<open>n\<close> are such pages of 30 or more objects.\<close>

definition full_pages ::
  "(request \<Rightarrow> get_result) \<Rightarrow> string \<Rightarrow> (nat \<Rightarrow> (string \<times> pyval) list list) \<Rightarrow> nat \<Rightarrow> nat \<Rightarrow> bool" where
  "full_pages session_get url pages k n =
     (\<forall>p \<in> set [k..<n]. page_is session_get url p (pages p) \<and> 30 \<le> length (pages p))"

text \<open>The records and the requests of the pages from \<open>k\<close> up to, not including, \<open>n\<close>.\<close>

definition records_of :: "(nat \<Rightarrow> (string \<times> pyval) list list) \<Rightarrow> nat \<Rightarrow> nat \<Rightarrow> pyval list" where
  "records_of pages k n = concat (map (\<lambda>p. map summary (pages p)) [k..<n])"

definition requests_of :: "string \<Rightarrow> nat \<Rightarrow> nat \<Rightarrow> request list" where
  "requests_of url k n = map (make_request url) [k..<n]"

section \<open>Sample servers and inputs\<close>

definition json_response :: "pyval \<Rightarrow> response" where
  "json_response v =
     \<lparr>status_code = 200,
      headers = [''content-type'' \<mapsto> ''application/json; charset=utf-8''],
      json_body = Some v\<rparr>"

definition sample_repo :: "(string \<times> pyval) list" where
  "sample_repo =
     [(''id'', PInt 1296269), (''name'', PStr ''Hello-World''),
      (''description'', PNone), (''stargazers_count'', PInt 80),
      (''language'', PStr ''Python''), (''created_at'', PStr ''2011-01-26T19:01:12Z''),
      (''updated_at'', PStr ''2011-01-26T19:14:43Z'')]"

text \<open>Exactly 30 repositories on page 1 and none on any later page.\<close>

definition pages_30_0 :: "nat \<Rightarrow> (string \<times> pyval) list list" where
  "pages_30_0 p = (if p = 1 then replicate 30 sample_repo else [])"

definition server_30_0 :: "request \<Rightarrow> get_result" where
  "server_30_0 req = Got (json_response (PList (map PDict (pages_30_0 (param_page req)))))"

section \<open>The shape of a printed reset time\<close>

text \<open>A text against a pattern in which \<open>9\<close> stands for any decimal digit.\<close>

fun matches :: "string \<Rightarrow> string \<Rightarrow> bool" where
  "matches [] [] = True"
| "matches (p # ps) (c # cs) =
     ((if p = CHR ''9'' then is_digit c else p = c) \<and> matches ps cs)"
| "matches ps cs = False"

text \<open>
  \<open>DD-Mon-YYYY HH:MM:SS AM/PM IST\<close>: two digits, a month abbreviation, four digits, three
  pairs of digits, \<open>AM\<close> or \<open>PM\<close>, and the literal \<open>IST\<close>.
\<close>

definition is_reset_format :: "string \<Rightarrow> bool" where
  "is_reset_format s =
     (length s = 27 \<and> matches ''99-'' (take 3 s)
      \<and> take 3 (drop 3 s) \<in> set month_abbr
      \<and> matches ''-9999 99:99:99 '' (take 15 (drop 6 s))
      \<and> (drop 21 s = ''AM IST'' \<or> drop 21 s = ''PM IST''))"

text \<open>A server that answers every request with status 403, with or without a reset header.\<close>

definition rate_limited :: "string option \<Rightarrow> request \<Rightarrow> get_result" where
  "rate_limited reset req =
     Got \<lparr>status_code = 403,
          headers = (case reset of None \<Rightarrow> Map.empty
                     | Some v \<Rightarrow> [''x-ratelimit-reset'' \<mapsto> v]),
          json_body = None\<rparr>"

text \<open>A server that answers every request with a page of HTML.\<close>

definition html_server :: "request \<Rightarrow> get_result" where
  "html_server req =
     Got \<lparr>status_code = 200, headers = [''content-type'' \<mapsto> ''text/html; charset=utf-8''],
          json_body = None\<rparr>"

text \<open>A file system with no files in which every path can be opened.\<close>

definition empty_fs :: filesystem where
  "empty_fs = \<lparr>files = Map.empty, can_open = (\<lambda>path. True)\<rparr>"

text \<open>A server whose responses claim to be JSON but have a body that does not parse.\<close>

definition garbled_server :: "request \<Rightarrow> get_result" where
  "garbled_server req =
     Got \<lparr>status_code = 200, headers = [''content-type'' \<mapsto> ''application/json''],
          json_body = None\<rparr>"



text \<open>
  A server that knows the account \<open>octocat\<close>, with one repository, and answers the
  requests for every other URL with status 404.
\<close>

definition account_server :: "request \<Rightarrow> get_result" where
  "account_server req =
     (if req_url req = ''https://api.github.com/users/octocat/repos''
      then Got (json_response (PList [PDict sample_repo]))
      else Got \<lparr>status_code = 404,
                headers = [''content-type'' \<mapsto> ''application/json; charset=utf-8''],
                json_body = Some (PDict [(''message'', PStr ''Not Found'')])\<rparr>)"


text \<open>A text of ASCII characters only.\<close>

definition ascii :: "string \<Rightarrow> bool" where
  "ascii s = list_all (\<lambda>c. (of_char c :: nat) < 128) s"

text \<open>The file expected for the record of the sample repository, line by line.\<close>

definition quoted :: "string \<Rightarrow> string" where
  "quoted s = [CHR 0x22] @ s @ [CHR 0x22]"

definition sample_file :: string where
  "sample_file =
     join [CHR 0x0A]
       [''['',
        ''    {'',
        ''        '' @ quoted ''name'' @ '': '' @ quoted ''Hello-World'' @ '','',
        ''        '' @ quoted ''description'' @ '': null,'',
        ''        '' @ quoted ''stars'' @ '': 80,'',
        ''        '' @ quoted ''language'' @ '': '' @ quoted ''Python'' @ '','',
        ''        '' @ quoted ''created_at'' @ '': '' @ quoted ''2011-01-26T19:01:12Z'' @ '','',
        ''        '' @ quoted ''updated_at'' @ '': '' @ quoted ''2011-01-26T19:14:43Z'',
        ''    }'',
        '']'']"

section \<open>Reading JSON back\<close>



















section \<open>The retrying adapter\<close>



text \<open>
  One attempt on the wire: a response, with its status and the delay in seconds of its
  \<open>Retry-After\<close> header when it has one, or a failure to connect, to read, or another one.
\<close>

datatype transport_error = Connect_error | Read_error | Other_error











text \<open>
  How sending one request ends: with a response, with \<open>MaxRetryError\<close>, or with the
  transport error raised again; after how many attempts, and after which pauses.
\<close>

datatype sent = Response nat "nat option" | Max_retry_error | Reraised transport_error










section \<open>Properties of the loop\<close>

lemma append_summaries_dicts:
  "append_summaries (map PDict repos) all_items = Inr (all_items @ map summary repos)"
  by (induction repos arbitrary: all_items) simp_all

lemma handle_response_full:
  "json_page resp repos \<Longrightarrow> 30 \<le> length repos \<Longrightarrow>
   handle_response resp all_items = Next_page (all_items @ map summary repos)"
  by (auto simp: json_page_def handle_response_def append_summaries_dicts)

lemma handle_response_short:
  "json_page resp repos \<Longrightarrow> length repos < 30 \<Longrightarrow>
   handle_response resp all_items = Break (all_items @ map summary repos)"
  by (auto simp: json_page_def handle_response_def append_summaries_dicts)

lemma fetch_loop_full:
  "page_is sg url p repos \<Longrightarrow> 30 \<le> length repos \<Longrightarrow>
   fetch_loop sg url p all_items sent =
   fetch_loop sg url (p + 1) (all_items @ map summary repos) (sent @ [make_request url p])"
  by (subst fetch_loop.simps)
     (auto simp: page_is_def handle_response_full split: get_result.splits)

lemma fetch_loop_short:
  "page_is sg url p repos \<Longrightarrow> length repos < 30 \<Longrightarrow>
   fetch_loop sg url p all_items sent =
   Some (Exit_Break (all_items @ map summary repos), sent @ [make_request url p])"
  by (subst fetch_loop.simps)
     (auto simp: page_is_def handle_response_short split: get_result.splits)

text \<open>Full pages are walked one after the other, each adding its records and its request.\<close>

lemma fetch_loop_skip:
  "(\<And>p. k \<le> p \<Longrightarrow> p < k + d \<Longrightarrow> page_is sg url p (pages p) \<and> 30 \<le> length (pages p)) \<Longrightarrow>
   fetch_loop sg url k all_items sent =
   fetch_loop sg url (k + d)
     (all_items @ concat (map (\<lambda>p. map summary (pages p)) [k..<k + d]))
     (sent @ map (make_request url) [k..<k + d])"
proof (induction d arbitrary: k all_items sent)
  case 0
  then show ?case by simp
next
  case (Suc d)
  have first: "page_is sg url k (pages k)" "30 \<le> length (pages k)"
    using Suc.prems [of k] by simp_all
  have rest: "page_is sg url p (pages p) \<and> 30 \<le> length (pages p)"
    if "Suc k \<le> p" "p < Suc k + d" for p
    using Suc.prems [of p] that by simp
  have upt: "[k..<Suc (k + d)] = k # [Suc k..<Suc (k + d)]"
    by (rule upt_conv_Cons) simp
  have "fetch_loop sg url k all_items sent =
        fetch_loop sg url (Suc k) (all_items @ map summary (pages k))
          (sent @ [make_request url k])"
    using fetch_loop_full [OF first, of all_items sent] by simp
  also have "\<dots> = fetch_loop sg url (Suc k + d)
     ((all_items @ map summary (pages k))
        @ concat (map (\<lambda>p. map summary (pages p)) [Suc k..<Suc k + d]))
     ((sent @ [make_request url k]) @ map (make_request url) [Suc k..<Suc k + d])"
    by (rule Suc.IH [OF rest])
  finally show ?case
    by (simp only: upt list.map concat.simps append_assoc append_Cons append_Nil
          add_Suc_right add_Suc)
qed

lemma fetch_loop_full_pages:
  assumes "1 \<le> n" and "full_pages sg url pages 1 n"
  shows "fetch_loop sg url 1 [] [] =
         fetch_loop sg url n (records_of pages 1 n) (requests_of url 1 n)"
proof -
  obtain d where n: "n = 1 + d"
    using assms(1) by (metis le_Suc_ex)
  have "page_is sg url p (pages p) \<and> 30 \<le> length (pages p)" if "1 \<le> p" "p < 1 + d" for p
    using assms(2) that by (simp add: full_pages_def n del: upt_Suc)
  from fetch_loop_skip [of 1 d sg url pages "[]" "[]", OF this]
  show ?thesis by (simp add: n records_of_def requests_of_def)
qed

lemma records_of_Suc:
  "k \<le> n \<Longrightarrow> records_of pages k (Suc n) = records_of pages k n @ map summary (pages n)"
  by (simp add: records_of_def)

lemma requests_of_Suc:
  "k \<le> n \<Longrightarrow> requests_of url k (Suc n) = requests_of url k n @ [make_request url n]"
  by (simp add: requests_of_def)

text \<open>The header names the fetcher looks up, in lower case.\<close>

lemma lower_Content_Type: "py_lower ''Content-Type'' = ''content-type''"
  by code_simp

lemma lower_RateLimit_Reset: "py_lower ''X-RateLimit-Reset'' = ''x-ratelimit-reset''"
  by code_simp

lemma json_response_is_json:
  "str_contains ''application/json'' (py_lower (content_type (json_response v)))"
proof -
  have "str_contains ''application/json'' (py_lower ''application/json; charset=utf-8'')"
    by code_simp
  then show ?thesis
    by (simp add: content_type_def headers_get_def json_response_def lower_Content_Type)
qed

lemma json_page_json_response: "json_page (json_response (PList (map PDict repos))) repos"
  using json_response_is_json [of "PList (map PDict repos)"]
  by (simp add: json_page_def) (simp add: json_response_def http_error_def)

text \<open>The requests for the pages of an account, written out.\<close>

lemma requests_of_account:
  "requests_of (get_url username) k n =
     map (\<lambda>p. \<lparr>req_url = ''https://api.github.com/users/'' @ username @ ''/repos'',
               param_type = ''owner'', param_sort = ''updated'',
               param_direction = ''desc'', param_per_page = 30,
               param_page = p, timeout_connect = 2, timeout_read = 10\<rparr>)
       [k..<n]"
  by (simp add: requests_of_def make_request_def get_url_def)

section \<open>Pagination\<close>

text \<open>
  Claim C1. \<open>fetcher\<close> asks for page 1, 2, 3, ... in turn, each request going to
  \<open>https://api.github.com/users/<username>/repos\<close> with \<open>per_page\<close> 30 (and \<open>type\<close>
  \<open>owner\<close>, \<open>sort\<close> \<open>updated\<close>, \<open>direction\<close> \<open>desc\<close>). When the pages before page \<open>n\<close> each
  return a list of 30 or more repository objects and page \<open>n\<close> returns a list of fewer
  than 30 (the empty list included), it stops at page \<open>n\<close>: the requests made are exactly
  those for the pages 1 to \<open>n\<close>, and the result is the concatenation, in the order of the
  API, of the six-field records of the objects of these pages.
\<close>

theorem fetcher_pagination:
  assumes "1 \<le> n"
    and "full_pages session_get (get_url username) pages 1 n"
    and "page_is session_get (get_url username) n (pages n)"
    and "length (pages n) < 30"
  shows "fetcher session_get username =
         Some \<lparr>result =
                 Some (concat (map (\<lambda>p. map (\<lambda>repo.
                         PDict (map (\<lambda>(field, key).
                                  (field, case map_of repo key of None \<Rightarrow> PNone | Some v \<Rightarrow> v))
                                [(''name'', ''name''), (''description'', ''description''),
                                 (''stars'', ''stargazers_count''), (''language'', ''language''),
                                 (''created_at'', ''created_at''),
                                 (''updated_at'', ''updated_at'')]))
                       (pages p)) [1..<Suc n])),
               printed = [],
               requests =
                 map (\<lambda>p. \<lparr>req_url = ''https://api.github.com/users/'' @ username @ ''/repos'',
                           param_type = ''owner'', param_sort = ''updated'',
                           param_direction = ''desc'', param_per_page = 30,
                           param_page = p, timeout_connect = 2, timeout_read = 10\<rparr>)
                   [1..<Suc n]\<rparr>"
proof -
  have "fetch_loop session_get (get_url username) 1 [] [] =
        Some (Exit_Break (records_of pages 1 n @ map summary (pages n)),
              requests_of (get_url username) 1 n @ [make_request (get_url username) n])"
    using fetch_loop_full_pages [OF assms(1,2)] fetch_loop_short [OF assms(3,4)] by simp
  then have run: "fetcher session_get username =
         Some \<lparr>result = Some (records_of pages 1 (Suc n)), printed = [],
               requests = requests_of (get_url username) 1 (Suc n)\<rparr>"
    using assms(1) by (simp add: fetcher_def records_of_Suc requests_of_Suc)
  have recs: "records_of pages 1 (Suc n) =
        concat (map (\<lambda>p. map (\<lambda>repo.
                         PDict (map (\<lambda>(field, key).
                                  (field, case map_of repo key of None \<Rightarrow> PNone | Some v \<Rightarrow> v))
                                [(''name'', ''name''), (''description'', ''description''),
                                 (''stars'', ''stargazers_count''), (''language'', ''language''),
                                 (''created_at'', ''created_at''),
                                 (''updated_at'', ''updated_at'')]))
                       (pages p)) [1..<Suc n])"
    unfolding records_of_def by (simp add: summary_def [abs_def] dict_get_def del: upt_Suc)
  show ?thesis
    unfolding run recs requests_of_account ..
qed

text \<open>
  With exactly 30 repositories on page 1 and none on page 2, the result has 30 records
  and the only requests are those for page 1 and page 2 of the account.
\<close>

theorem fetcher_pagination_witness:
  "full_pages server_30_0 (get_url ''octocat'') pages_30_0 1 2
   \<and> page_is server_30_0 (get_url ''octocat'') 2 (pages_30_0 2)
   \<and> length (pages_30_0 1) = 30 \<and> length (pages_30_0 2) = 0
   \<and> fetcher server_30_0 ''octocat'' =
       Some \<lparr>result =
               Some (replicate 30
                 (PDict [(''name'', PStr ''Hello-World''), (''description'', PNone),
                         (''stars'', PInt 80), (''language'', PStr ''Python''),
                         (''created_at'', PStr ''2011-01-26T19:01:12Z''),
                         (''updated_at'', PStr ''2011-01-26T19:14:43Z'')])),
             printed = [],
             requests =
               [\<lparr>req_url = ''https://api.github.com/users/octocat/repos'',
                 param_type = ''owner'', param_sort = ''updated'', param_direction = ''desc'',
                 param_per_page = 30, param_page = 1, timeout_connect = 2, timeout_read = 10\<rparr>,
                \<lparr>req_url = ''https://api.github.com/users/octocat/repos'',
                 param_type = ''owner'', param_sort = ''updated'', param_direction = ''desc'',
                 param_per_page = 30, param_page = 2, timeout_connect = 2, timeout_read = 10\<rparr>]\<rparr>"
proof -
  have page: "page_is server_30_0 (get_url ''octocat'') p (pages_30_0 p)" for p
    by (simp add: page_is_def server_30_0_def make_request_def json_page_json_response)
  have full: "full_pages server_30_0 (get_url ''octocat'') pages_30_0 1 2"
    by (simp add: full_pages_def page) (simp add: pages_30_0_def)
  have short: "length (pages_30_0 2) < 30"
    by (simp add: pages_30_0_def)
  have pages: "[1..<Suc 2] = [1, 2]"
    by (simp add: upt_rec numeral_2_eq_2)
  have "fetcher server_30_0 ''octocat'' =
       Some \<lparr>result =
               Some (replicate 30
                 (PDict [(''name'', PStr ''Hello-World''), (''description'', PNone),
                         (''stars'', PInt 80), (''language'', PStr ''Python''),
                         (''created_at'', PStr ''2011-01-26T19:01:12Z''),
                         (''updated_at'', PStr ''2011-01-26T19:14:43Z'')])),
             printed = [],
             requests =
               [\<lparr>req_url = ''https://api.github.com/users/octocat/repos'',
                 param_type = ''owner'', param_sort = ''updated'', param_direction = ''desc'',
                 param_per_page = 30, param_page = 1, timeout_connect = 2, timeout_read = 10\<rparr>,
                \<lparr>req_url = ''https://api.github.com/users/octocat/repos'',
                 param_type = ''owner'', param_sort = ''updated'', param_direction = ''desc'',
                 param_per_page = 30, param_page = 2, timeout_connect = 2, timeout_read = 10\<rparr>]\<rparr>"
    using fetcher_pagination [of 2 server_30_0 "''octocat''" pages_30_0, OF _ full page short]
    unfolding pages by (simp add: pages_30_0_def sample_repo_def)
  moreover have "length (pages_30_0 1) = 30 \<and> length (pages_30_0 2) = 0"
    by (simp add: pages_30_0_def)
  ultimately show ?thesis
    using full page [of 2] by blast
qed

section \<open>Records\<close>

text \<open>
  Claim C2. The record built for a repository object has exactly the six fields \<open>name\<close>,
  \<open>description\<close>, \<open>stars\<close>, \<open>language\<close>, \<open>created_at\<close>, \<open>updated_at\<close>, in this order;
  \<open>stars\<close> holds the value of \<open>stargazers_count\<close>, every other field the value of the field
  of the same name, and \<open>None\<close> stands for a field the object does not have. Every object
  of a parsed page is turned into such a record.
\<close>

theorem summary_fields:
  "append_summaries (map PDict repos) all_items = Inr (all_items @ map summary repos)
   \<and> (\<exists>kvs. summary repo = PDict kvs
        \<and> map fst kvs =
            [''name'', ''description'', ''stars'', ''language'', ''created_at'', ''updated_at'']
        \<and> map snd kvs =
            map (\<lambda>k. case map_of repo k of None \<Rightarrow> PNone | Some v \<Rightarrow> v)
              [''name'', ''description'', ''stargazers_count'', ''language'',
               ''created_at'', ''updated_at''])"
  by (simp add: append_summaries_dicts summary_def dict_get_def)

section \<open>Properties of the reset time\<close>

lemma is_digit_digit_char: "n < 10 \<Longrightarrow> is_digit (digit_char n)"
proof -
  assume "n < 10"
  then consider "n = 0" | "n = 1" | "n = 2" | "n = 3" | "n = 4" | "n = 5" | "n = 6"
    | "n = 7" | "n = 8" | "n = 9"
    by atomize_elim presburger
  then show ?thesis
    by cases (simp_all add: is_digit_def digit_char_def)
qed

lemma show_nat_1: "n < 10 \<Longrightarrow> show_nat n = [digit_char n]"
  by (simp add: show_nat.simps)

lemma show_nat_2: "10 \<le> n \<Longrightarrow> n < 100 \<Longrightarrow> show_nat n = [digit_char (n div 10), digit_char (n mod 10)]"
  by (subst show_nat.simps) (simp add: show_nat_1)

lemma show_nat_3:
  "100 \<le> n \<Longrightarrow> n < 1000 \<Longrightarrow>
   show_nat n = [digit_char (n div 100), digit_char (n div 10 mod 10), digit_char (n mod 10)]"
  by (subst show_nat.simps) (simp add: show_nat_2 div_mult2_eq [symmetric])

lemma show_nat_4:
  "1000 \<le> n \<Longrightarrow> n < 10000 \<Longrightarrow>
   show_nat n = [digit_char (n div 1000), digit_char (n div 100 mod 10),
                 digit_char (n div 10 mod 10), digit_char (n mod 10)]"
  by (subst show_nat.simps) (simp add: show_nat_3 div_mult2_eq [symmetric])

lemma zero_pad_2:
  assumes "n < 100"
  shows "\<exists>d1 d2. zero_pad 2 n = [d1, d2] \<and> is_digit d1 \<and> is_digit d2"
proof (cases "n < 10")
  case True
  then have "zero_pad 2 n = [CHR ''0'', digit_char n]"
    by (simp add: zero_pad_def show_nat_1)
  moreover have "is_digit (CHR ''0'')" by (simp add: is_digit_def)
  ultimately show ?thesis using True by (simp add: is_digit_digit_char)
next
  case False
  then have "zero_pad 2 n = [digit_char (n div 10), digit_char (n mod 10)]"
    using assms by (simp add: zero_pad_def show_nat_2)
  moreover have "n div 10 < 10" using assms by simp
  ultimately show ?thesis by (simp add: is_digit_digit_char)
qed

lemma show_nat_4_digits:
  assumes "1000 \<le> n" "n < 10000"
  shows "\<exists>d1 d2 d3 d4. show_nat n = [d1, d2, d3, d4]
           \<and> is_digit d1 \<and> is_digit d2 \<and> is_digit d3 \<and> is_digit d4"
proof -
  have "show_nat n = [digit_char (n div 1000), digit_char (n div 100 mod 10),
                 digit_char (n div 10 mod 10), digit_char (n mod 10)]"
    using assms by (simp add: show_nat_4)
  moreover have "n div 1000 < 10" using assms by simp
  ultimately show ?thesis by (simp add: is_digit_digit_char)
qed

lemma month_day_bounds:
  fixes n :: int and leap :: bool
  assumes "0 \<le> n" "n < 365"
  defines "month \<equiv> (n + 50) div 32"
  defines "preceding \<equiv> DAYS_BEFORE_MONTH ! nat month + (if month > 2 \<and> leap then 1 else 0)"
  defines "day' \<equiv> n - (preceding - (DAYS_IN_MONTH ! nat (month - 1)
                                   + (if month - 1 = 2 \<and> leap then 1 else 0))) + 1"
  shows "1 \<le> month \<and> month \<le> 12
         \<and> (preceding > n \<longrightarrow> 2 \<le> month \<and> 1 \<le> day' \<and> day' \<le> 31)
         \<and> (\<not> preceding > n \<longrightarrow> 1 \<le> n - preceding + 1 \<and> n - preceding + 1 \<le> 31)"
proof -
  have range: "32 * month \<le> n + 50" "n + 50 < 32 * month + 32"
    unfolding month_def by presburger+
  then have "1 \<le> month" "month \<le> 12"
    using assms(1,2) by linarith+
  then consider "month = 1" | "month = 2" | "month = 3" | "month = 4" | "month = 5"
    | "month = 6" | "month = 7" | "month = 8" | "month = 9" | "month = 10"
    | "month = 11" | "month = 12"
    by atomize_elim presburger
  then show ?thesis
  proof cases
    case 1 then show ?thesis using range assms(1,2)
      by (simp add: preceding_def day'_def DAYS_BEFORE_MONTH_def DAYS_IN_MONTH_def)
  next
    case 2 then show ?thesis using range
      by (simp add: preceding_def day'_def DAYS_BEFORE_MONTH_def DAYS_IN_MONTH_def)
  next
    case 3 then show ?thesis using range
      by (simp add: preceding_def day'_def DAYS_BEFORE_MONTH_def DAYS_IN_MONTH_def)
  next
    case 4 then show ?thesis using range
      by (simp add: preceding_def day'_def DAYS_BEFORE_MONTH_def DAYS_IN_MONTH_def)
  next
    case 5 then show ?thesis using range
      by (simp add: preceding_def day'_def DAYS_BEFORE_MONTH_def DAYS_IN_MONTH_def)
  next
    case 6 then show ?thesis using range
      by (simp add: preceding_def day'_def DAYS_BEFORE_MONTH_def DAYS_IN_MONTH_def)
  next
    case 7 then show ?thesis using range
      by (simp add: preceding_def day'_def DAYS_BEFORE_MONTH_def DAYS_IN_MONTH_def)
  next
    case 8 then show ?thesis using range
      by (simp add: preceding_def day'_def DAYS_BEFORE_MONTH_def DAYS_IN_MONTH_def)
  next
    case 9 then show ?thesis using range
      by (simp add: preceding_def day'_def DAYS_BEFORE_MONTH_def DAYS_IN_MONTH_def)
  next
    case 10 then show ?thesis using range
      by (simp add: preceding_def day'_def DAYS_BEFORE_MONTH_def DAYS_IN_MONTH_def)
  next
    case 11 then show ?thesis using range
      by (simp add: preceding_def day'_def DAYS_BEFORE_MONTH_def DAYS_IN_MONTH_def)
  next
    case 12 then show ?thesis using range assms(1,2)
      by (simp add: preceding_def day'_def DAYS_BEFORE_MONTH_def DAYS_IN_MONTH_def)
  qed
qed

lemma year_upper:
  fixes N a b c e r1 r2 r3 r :: int
  assumes "N = 146097 * a + r1" "0 \<le> r1" "r1 < 146097"
    "r1 = 36524 * b + r2" "0 \<le> r2" "r2 < 36524"
    "r2 = 1461 * c + r3" "0 \<le> r3" "r3 < 1461"
    "r3 = 365 * e + r" "0 \<le> r" "r < 365"
    "N \<le> 3652058" "0 \<le> a" "0 \<le> b" "0 \<le> c" "0 \<le> e"
  shows "a * 400 + b * 100 + c * 4 + e \<le> 9998 \<or> (e = 4 \<or> b = 4) \<and> a * 400 + b * 100 + c * 4 + e \<le> 9999"
proof -
  have a: "a \<le> 24" using assms by linarith
  have b: "b \<le> 4" using assms by linarith
  have c: "c \<le> 24" using assms by linarith
  have e: "e \<le> 4" using assms by linarith
  show ?thesis
  proof (cases "a \<le> 23")
    case True
    then show ?thesis using b c e by linarith
  next
    case False
    then have a24: "a = 24" using a by linarith
    then have b3: "b \<le> 3" using assms by linarith
    show ?thesis
    proof (cases "b \<le> 2")
      case True
      then show ?thesis using a24 c e by linarith
    next
      case False
      then have b3': "b = 3" using b3 by linarith
      show ?thesis
      proof (cases "c \<le> 23")
        case True
        then show ?thesis using a24 b3' e by linarith
      next
        case False
        then have c24: "c = 24" using c by linarith
        then have "e \<le> 2" using a24 b3' assms by linarith
        then show ?thesis using a24 b3' c24 by linarith
      qed
    qed
  qed
qed

lemma year_lower:
  fixes N a b c e r1 r2 r3 r :: int
  assumes "N = 146097 * a + r1" "0 \<le> r1" "r1 < 146097"
    "r1 = 36524 * b + r2" "0 \<le> r2" "r2 < 36524"
    "r2 = 1461 * c + r3" "0 \<le> r3" "r3 < 1461"
    "r3 = 365 * e + r" "0 \<le> r" "r < 365"
    "364877 \<le> N"
  shows "1000 \<le> a * 400 + b * 100 + c * 4 + e
         \<or> \<not> (e = 4 \<or> b = 4) \<and> 999 \<le> a * 400 + b * 100 + c * 4 + e"
proof -
  have a: "2 \<le> a" using assms by linarith
  have b: "0 \<le> b" using assms by linarith
  have c: "0 \<le> c" "c \<le> 24" using assms by linarith+
  have e: "0 \<le> e" "e \<le> 4" using assms by linarith+
  show ?thesis
  proof (cases "3 \<le> a")
    case True
    then show ?thesis using b c e by linarith
  next
    case False
    then have a2: "a = 2" using a by linarith
    then have b1: "1 \<le> b" using assms by linarith
    show ?thesis
    proof (cases "2 \<le> b")
      case True
      then show ?thesis using a2 c e by linarith
    next
      case False
      then have b1': "b = 1" using b1 by linarith
      then have c24: "c = 24" using a2 c(2) assms by linarith
      then have "e = 3" using a2 b1' assms by linarith
      then show ?thesis using a2 b1' c24 by simp
    qed
  qed
qed

lemma ord2ymd_unfold:
  fixes n :: int
  defines "N \<equiv> n - 1"
  defines "a \<equiv> N div 146097" and "r1 \<equiv> N mod 146097"
  defines "b \<equiv> r1 div 36524" and "r2 \<equiv> r1 mod 36524"
  defines "c \<equiv> r2 div 1461" and "r3 \<equiv> r2 mod 1461"
  defines "e \<equiv> r3 div 365" and "r \<equiv> r3 mod 365"
  defines "leap \<equiv> (e = 3 \<and> (c \<noteq> 24 \<or> b = 3))"
  defines "month \<equiv> (r + 50) div 32"
  defines "preceding \<equiv> DAYS_BEFORE_MONTH ! nat month + (if month > 2 \<and> leap then 1 else 0)"
  defines "day' \<equiv> r - (preceding - (DAYS_IN_MONTH ! nat (month - 1)
                                   + (if month - 1 = 2 \<and> leap then 1 else 0))) + 1"
  shows "ord2ymd n =
      (if e = 4 \<or> b = 4 then (a * 400 + 1 + b * 100 + c * 4 + e - 1, 12, 31)
       else if preceding > r then (a * 400 + 1 + b * 100 + c * 4 + e, month - 1, day')
       else (a * 400 + 1 + b * 100 + c * 4 + e, month, r - preceding + 1))"
  unfolding ord2ymd_def Let_def N_def a_def r1_def b_def r2_def c_def r3_def e_def
          r_def leap_def month_def preceding_def day'_def
  by (rule refl)


lemma ord2ymd_bounds:
  assumes "364878 \<le> n" "n \<le> 3652059"
  shows "\<exists>y m d. ord2ymd n = (y, m, d) \<and> 1000 \<le> y \<and> y \<le> 9999 \<and> 1 \<le> m \<and> m \<le> 12
           \<and> 1 \<le> d \<and> d \<le> 31"
proof -
  define N where "N = n - 1"
  define a where "a = N div 146097"
  define r1 where "r1 = N mod 146097"
  define b where "b = r1 div 36524"
  define r2 where "r2 = r1 mod 36524"
  define c where "c = r2 div 1461"
  define r3 where "r3 = r2 mod 1461"
  define e where "e = r3 div 365"
  define r where "r = r3 mod 365"
  define leap where "leap = (e = 3 \<and> (c \<noteq> 24 \<or> b = 3))"
  define month where "month = (r + 50) div 32"
  define preceding where
    "preceding = DAYS_BEFORE_MONTH ! nat month + (if month > 2 \<and> leap then 1 else 0)"
  define day' where
    "day' = r - (preceding - (DAYS_IN_MONTH ! nat (month - 1)
                                   + (if month - 1 = 2 \<and> leap then 1 else 0))) + 1"
  define y where "y = a * 400 + 1 + b * 100 + c * 4 + e"
  have unfold: "ord2ymd n =
      (if e = 4 \<or> b = 4 then (y - 1, 12, 31)
       else if preceding > r then (y, month - 1, day')
       else (y, month, r - preceding + 1))"
    unfolding N_def a_def r1_def b_def r2_def c_def r3_def e_def
          r_def leap_def month_def preceding_def day'_def y_def
    by (rule ord2ymd_unfold)
  have lin: "N = 146097 * a + r1" "0 \<le> r1" "r1 < 146097"
    "r1 = 36524 * b + r2" "0 \<le> r2" "r2 < 36524"
    "r2 = 1461 * c + r3" "0 \<le> r3" "r3 < 1461"
    "r3 = 365 * e + r" "0 \<le> r" "r < 365"
    unfolding a_def r1_def b_def r2_def c_def r3_def e_def r_def by simp_all
  have N: "364877 \<le> N" "N \<le> 3652058"
    using assms by (simp_all add: N_def)
  have nonneg: "0 \<le> a" "0 \<le> b" "0 \<le> c" "0 \<le> e"
    using N(1) lin(2,5,8) unfolding a_def b_def c_def e_def
    by (simp_all add: pos_imp_zdiv_nonneg_iff)
  have upper': "y \<le> 9999 \<or> (e = 4 \<or> b = 4) \<and> y \<le> 10000"
    using year_upper [OF lin N(2) nonneg] unfolding y_def by auto
  have lower': "1001 \<le> y \<or> \<not> (e = 4 \<or> b = 4) \<and> 1000 \<le> y"
    using year_lower [OF lin N(1)] unfolding y_def by auto
  have md: "1 \<le> month \<and> month \<le> 12
         \<and> (preceding > r \<longrightarrow> 2 \<le> month \<and> 1 \<le> day' \<and> day' \<le> 31)
         \<and> (\<not> preceding > r \<longrightarrow> 1 \<le> r - preceding + 1 \<and> r - preceding + 1 \<le> 31)"
    unfolding month_def preceding_def day'_def
    by (rule month_day_bounds [OF lin(11,12)])
  show ?thesis
  proof (cases "e = 4 \<or> b = 4")
    case True
    then have "ord2ymd n = (y - 1, 12, 31)" by (simp only: unfold if_True)
    moreover have "1001 \<le> y" "y \<le> 10000" using upper' lower' True by auto
    ultimately show ?thesis by simp
  next
    case False
    note nf = False
    have upper: "y \<le> 9999" using upper' nf by blast
    have lower: "1000 \<le> y" using lower' by linarith
    show ?thesis
    proof (cases "preceding > r")
      case True
      then have "ord2ymd n = (y, month - 1, day')" using nf by (simp only: unfold if_True if_False)
      then show ?thesis using upper lower md True by simp
    next
      case False
      then have "ord2ymd n = (y, month, r - preceding + 1)"
        using nf by (simp only: unfold if_False)
      then show ?thesis using upper lower md False by simp
    qed
  qed
qed

lemma month_abbr_nth:
  assumes "k < 12"
  shows "\<exists>m1 m2 m3. month_abbr ! k = [m1, m2, m3] \<and> [m1, m2, m3] \<in> set month_abbr"
proof -
  from assms consider "k = 0" | "k = 1" | "k = 2" | "k = 3" | "k = 4" | "k = 5" | "k = 6"
    | "k = 7" | "k = 8" | "k = 9" | "k = 10" | "k = 11"
    by atomize_elim presburger
  then show ?thesis
    by cases (simp_all add: month_abbr_def)
qed

lemma strftime_ist_format:
  assumes "364878 \<le> ordinal dt" "ordinal dt \<le> 3652059"
    and "0 \<le> second_of_day dt" "second_of_day dt < 86400"
  shows "is_reset_format (strftime_ist dt)"
proof -
  define hour where "hour = second_of_day dt div 3600"
  define hour12 where "hour12 = (if hour mod 12 = 0 then 12 else hour mod 12)"
  obtain y m d where ymd: "ord2ymd (ordinal dt) = (y, m, d)"
    and y: "1000 \<le> y" "y \<le> 9999" and m: "1 \<le> m" "m \<le> 12" and d: "1 \<le> d" "d \<le> 31"
    using ord2ymd_bounds [OF assms(1,2)] by blast
  have "0 \<le> hour mod 12" "hour mod 12 < 12" by simp_all
  then have h12: "0 \<le> hour12 \<and> hour12 \<le> 12"
    unfolding hour12_def by (cases "hour mod 12 = 0") simp_all
  have "nat d < 100" using d by simp
  from zero_pad_2 [OF this]
  obtain d1 d2 where dd: "zero_pad 2 (nat d) = [d1, d2]" "is_digit d1" "is_digit d2"
    by blast
  have "nat (m - 1) < 12" using m by simp
  from month_abbr_nth [OF this]
  obtain m1 m2 m3 where mon: "month_abbr ! nat (m - 1) = [m1, m2, m3]"
    "[m1, m2, m3] \<in> set month_abbr"
    by blast
  have "1000 \<le> nat y" "nat y < 10000" using y by simp_all
  from show_nat_4_digits [OF this]
  obtain y1 y2 y3 y4 where yy: "show_nat (nat y) = [y1, y2, y3, y4]"
    "is_digit y1" "is_digit y2" "is_digit y3" "is_digit y4"
    by blast
  have "nat hour12 < 100" using h12 by linarith
  from zero_pad_2 [OF this]
  obtain h1 h2 where hh: "zero_pad 2 (nat hour12) = [h1, h2]" "is_digit h1" "is_digit h2"
    by blast
  have "second_of_day dt mod 3600 < 3600" by simp
  then have "second_of_day dt mod 3600 div 60 < 60"
    by linarith
  then have "nat (second_of_day dt mod 3600 div 60) < 100" by simp
  from zero_pad_2 [OF this]
  obtain i1 i2 where mi: "zero_pad 2 (nat (second_of_day dt mod 3600 div 60)) = [i1, i2]"
    "is_digit i1" "is_digit i2"
    by blast
  have "nat (second_of_day dt mod 60) < 100" by simp
  from zero_pad_2 [OF this]
  obtain s1 s2 where ss: "zero_pad 2 (nat (second_of_day dt mod 60)) = [s1, s2]"
    "is_digit s1" "is_digit s2"
    by blast
  have "strftime_ist dt =
        [d1, d2] @ ''-'' @ [m1, m2, m3] @ ''-'' @ [y1, y2, y3, y4] @ '' '' @ [h1, h2] @ '':''
        @ [i1, i2] @ '':'' @ [s1, s2] @ '' '' @ (if hour < 12 then ''AM'' else ''PM'') @ '' IST''"
    by (simp add: strftime_ist_def ymd Let_def dd mon yy hh [unfolded hour12_def hour_def] mi ss
          hour_def)
  then show ?thesis
    using dd(2,3) mon(2) yy(2-) hh(2,3) mi(2,3) ss(2,3)
    by (simp add: is_reset_format_def)
qed

lemma div_86400_bounds:
  fixes t k :: int
  shows "k * 86400 \<le> t \<Longrightarrow> k \<le> t div 86400"
    and "t < k * 86400 + 86400 \<Longrightarrow> t div 86400 \<le> k"
proof -
  have t: "t = 86400 * (t div 86400) + t mod 86400" by simp
  have m: "0 \<le> t mod 86400" "t mod 86400 < 86400" by simp_all
  show "k * 86400 \<le> t \<Longrightarrow> k \<le> t div 86400" using t m by linarith
  show "t < k * 86400 + 86400 \<Longrightarrow> t div 86400 \<le> k" using t m by linarith
qed

text \<open>
  \<open>fromtimestamp\<close> succeeds from the first second of year 1 to the last second of year
  9999, and on no other timestamp.
\<close>

lemma utc_fromtimestamp_value:
  assumes "- 62135596800 \<le> t" "t \<le> 253402300799"
  shows "utc_fromtimestamp t =
         Inr \<lparr>ordinal = t div 86400 + 719163, second_of_day = t mod 86400\<rparr>"
proof -
  have "- 719162 \<le> t div 86400" "t div 86400 \<le> 2932896"
    using div_86400_bounds [of "- 719162" t] div_86400_bounds [of t 2932896] assms
    by simp_all
  then show ?thesis
    using assms
    by (simp add: utc_fromtimestamp_def TIME_T_MIN_def TIME_T_MAX_def GMTIME_MIN_def
          GMTIME_MAX_def EPOCH_ORDINAL_def MAXORDINAL_def)
qed

lemma utc_fromtimestamp_raises:
  assumes "t < - 62135596800 \<or> 253402300799 < t"
  shows "utc_fromtimestamp t =
         Inl (if t < - 9223372036854775808 \<or> 9223372036854775807 < t then OverflowError
              else if t < - 67768040609740800 \<or> 67768036191676799 < t then OSError
              else ValueError)"
proof -
  have "t div 86400 \<le> - 719163 \<or> 2932897 \<le> t div 86400"
    using div_86400_bounds(2) [of t "- 719163"] div_86400_bounds(1) [of 2932897 t] assms
    by auto
  then show ?thesis
    by (auto simp: utc_fromtimestamp_def TIME_T_MIN_def TIME_T_MAX_def GMTIME_MIN_def
          GMTIME_MAX_def EPOCH_ORDINAL_def MAXORDINAL_def)
qed

text \<open>The time printed is the UTC time of the timestamp moved forward by 19800 seconds.\<close>

lemma convert_reset_to_ist_value:
  assumes "- 62135596800 \<le> t" "t \<le> 253402280999"
  shows "convert_reset_to_ist t =
         Inr (strftime_ist \<lparr>ordinal = (t + 19800) div 86400 + 719163,
                            second_of_day = (t + 19800) mod 86400\<rparr>)"
proof -
  have utc: "utc_fromtimestamp t =
             Inr \<lparr>ordinal = t div 86400 + 719163, second_of_day = t mod 86400\<rparr>"
    by (rule utc_fromtimestamp_value) (use assms in simp_all)
  have split1: "t div 86400 + (t mod 86400 + 19800) div 86400 = (t + 19800) div 86400"
    using div_add1_eq [of t 19800 86400] by simp
  have split2: "(t mod 86400 + 19800) mod 86400 = (t + 19800) mod 86400"
    by (rule mod_add_left_eq)
  have ord: "t div 86400 + 719163 + (t mod 86400 + 19800) div 86400 =
             (t + 19800) div 86400 + 719163"
    using split1 by linarith
  have range: "- 719162 \<le> (t + 19800) div 86400" "(t + 19800) div 86400 \<le> 2932896"
    using div_86400_bounds [of "- 719162" "t + 19800"]
      div_86400_bounds [of "t + 19800" 2932896] assms
    by simp_all
  have add: "datetime_add \<lparr>ordinal = t div 86400 + 719163, second_of_day = t mod 86400\<rparr> 19800 =
        Inr \<lparr>ordinal = (t + 19800) div 86400 + 719163, second_of_day = (t + 19800) mod 86400\<rparr>"
    using range split1 ord by (auto simp: datetime_add_def Let_def MAXORDINAL_def split2)
  show ?thesis
    by (simp add: convert_reset_to_ist_def utc timedelta_def add)
qed

text \<open>
  In the last 19800 seconds of year 9999 the UTC time exists and adding the offset
  overflows; outside the years 1 to 9999 \<open>fromtimestamp\<close> itself raises.
\<close>

lemma convert_reset_to_ist_raises:
  assumes "t < - 62135596800 \<or> 253402280999 < t"
  shows "convert_reset_to_ist t =
         Inl (if t < - 9223372036854775808 \<or> 9223372036854775807 < t then OverflowError
              else if t < - 67768040609740800 \<or> 67768036191676799 < t then OSError
              else if t < - 62135596800 \<or> 253402300799 < t then ValueError
              else OverflowError)"
proof (cases "t < - 62135596800 \<or> 253402300799 < t")
  case True
  then show ?thesis
    using utc_fromtimestamp_raises [OF True] by (auto simp: convert_reset_to_ist_def)
next
  case False
  then have range: "253402281000 \<le> t" "t \<le> 253402300799"
    using assms by linarith+
  have utc: "utc_fromtimestamp t =
             Inr \<lparr>ordinal = t div 86400 + 719163, second_of_day = t mod 86400\<rparr>"
    by (rule utc_fromtimestamp_value) (use range in simp_all)
  have split1: "t div 86400 + (t mod 86400 + 19800) div 86400 = (t + 19800) div 86400"
    using div_add1_eq [of t 19800 86400] by simp
  have "2932897 \<le> (t + 19800) div 86400"
    using div_86400_bounds(1) [of 2932897 "t + 19800"] range by simp
  then have "datetime_add \<lparr>ordinal = t div 86400 + 719163, second_of_day = t mod 86400\<rparr> 19800 =
        Inl OverflowError"
    using split1 by (auto simp: datetime_add_def Let_def MAXORDINAL_def)
  then show ?thesis
    using range by (simp add: convert_reset_to_ist_def utc timedelta_def)
qed

lemma convert_reset_to_ist_format:
  assumes "- 30610243800 \<le> t" "t \<le> 253402280999"
  shows "\<exists>reset_time. convert_reset_to_ist t = Inr reset_time \<and> is_reset_format reset_time"
proof -
  have range: "- 354285 \<le> (t + 19800) div 86400" "(t + 19800) div 86400 \<le> 2932896"
    using div_86400_bounds [of "- 354285" "t + 19800"]
      div_86400_bounds [of "t + 19800" 2932896] assms
    by simp_all
  have "is_reset_format (strftime_ist \<lparr>ordinal = (t + 19800) div 86400 + 719163,
                            second_of_day = (t + 19800) mod 86400\<rparr>)"
    by (rule strftime_ist_format) (use range in simp_all)
  then show ?thesis
    using convert_reset_to_ist_value [of t] assms by simp
qed

section \<open>The last page of a run\<close>

lemma full_pages_empty: "full_pages sg url pages 1 1"
  by (simp add: full_pages_def)

lemma fetch_loop_last:
  assumes "1 \<le> n" and "full_pages sg url pages 1 n"
    and "sg (make_request url n) = Got resp"
  shows "handle_response resp (records_of pages 1 n) = Return_None l \<Longrightarrow>
         fetch_loop sg url 1 [] [] = Some (Exit_None l, requests_of url 1 (Suc n))"
    and "handle_response resp (records_of pages 1 n) = Raise e \<Longrightarrow>
         fetch_loop sg url 1 [] [] = Some (Exit_Raise e, requests_of url 1 (Suc n))"
    and "handle_response resp (records_of pages 1 n) = Break items \<Longrightarrow>
         fetch_loop sg url 1 [] [] = Some (Exit_Break items, requests_of url 1 (Suc n))"
proof -
  have start: "fetch_loop sg url 1 [] [] =
               fetch_loop sg url n (records_of pages 1 n) (requests_of url 1 n)"
    by (rule fetch_loop_full_pages [OF assms(1,2)])
  have rq: "requests_of url (Suc 0) n @ [make_request url n] = requests_of url (Suc 0) (Suc n)"
    using assms(1) by (simp add: requests_of_def)
  show "handle_response resp (records_of pages 1 n) = Return_None l \<Longrightarrow>
         fetch_loop sg url 1 [] [] = Some (Exit_None l, requests_of url 1 (Suc n))"
    unfolding start by (subst fetch_loop.simps) (simp add: assms(3) rq)
  show "handle_response resp (records_of pages 1 n) = Raise e \<Longrightarrow>
         fetch_loop sg url 1 [] [] = Some (Exit_Raise e, requests_of url 1 (Suc n))"
    unfolding start by (subst fetch_loop.simps) (simp add: assms(3) rq)
  show "handle_response resp (records_of pages 1 n) = Break items \<Longrightarrow>
         fetch_loop sg url 1 [] [] = Some (Exit_Break items, requests_of url 1 (Suc n))"
    unfolding start by (subst fetch_loop.simps) (simp add: assms(3) rq)
qed


lemma fetcher_last:
  assumes "1 \<le> n" and "full_pages sg (get_url u) pages 1 n"
    and "sg (make_request (get_url u) n) = Got resp"
  shows "handle_response resp (records_of pages 1 n) = Return_None l \<Longrightarrow>
         fetcher sg u = Some \<lparr>result = None, printed = [l],
                               requests = requests_of (get_url u) 1 (Suc n)\<rparr>"
    and "handle_response resp (records_of pages 1 n) = Raise e \<Longrightarrow>
         fetcher sg u = Some \<lparr>result = None, printed = [handler_line e],
                               requests = requests_of (get_url u) 1 (Suc n)\<rparr>"
    and "handle_response resp (records_of pages 1 n) = Break items \<Longrightarrow>
         fetcher sg u = Some \<lparr>result = Some items, printed = [],
                               requests = requests_of (get_url u) 1 (Suc n)\<rparr>"
  using fetch_loop_last [OF assms] by (simp_all add: fetcher_def)


lemma handle_response_no_reset:
  assumes "status_code resp = 403"
    and "headers_get resp ''X-RateLimit-Reset'' = None
         \<or> headers_get resp ''X-RateLimit-Reset'' = Some []"
  shows "handle_response resp all_items =
         Return_None (Line ''Rate limit exceeded. No reset time provided.'')"
  using assms by (auto simp: handle_response_def)

lemma handle_response_reset:
  assumes "status_code resp = 403"
    and "headers_get resp ''X-RateLimit-Reset'' = Some reset_ts" and "reset_ts \<noteq> []"
  shows "handle_response resp all_items =
         (case py_int reset_ts of
            Inl e \<Rightarrow> Raise e
          | Inr n \<Rightarrow>
              (case convert_reset_to_ist n of
                 Inl e \<Rightarrow> Raise e
               | Inr reset_time \<Rightarrow>
                   Return_None (Line (''Rate limit exceeded. It will reset at: '' @ reset_time))))"
  using assms by (simp add: handle_response_def)

lemma handle_response_bad_content:
  assumes "\<not> str_contains ''application/json'' (py_lower (content_type resp))
           \<or> json_body resp = None"
  shows "(\<exists>l. handle_response resp all_items = Return_None l)
         \<or> (\<exists>e. handle_response resp all_items = Raise e)"
  using assms
  by (auto simp: handle_response_def Let_def split: option.splits sum.splits)

lemma handle_response_not_json:
  assumes "status_code resp \<noteq> 403" "\<not> http_error (status_code resp)"
  shows "\<not> str_contains ''application/json'' (py_lower (content_type resp)) \<Longrightarrow>
         handle_response resp all_items = Return_None (Line ''Not JSON'')"
    and "str_contains ''application/json'' (py_lower (content_type resp)) \<Longrightarrow>
         json_body resp = None \<Longrightarrow>
         handle_response resp all_items = Return_None (Line ''Invalid JSON'')"
  using assms by (simp_all add: handle_response_def Let_def)

lemma main_cli_failure:
  assumes "fetcher sg u = Some f" "result f = None"
  shows "main_cli sg u output fs =
         Some \<lparr>exit_code = 1,
               stdout = Line (''Fetching repos for user: '' @ u) # printed f
                        @ [Line ''Error fetching data.''],
               final_fs = fs\<rparr>"
  using assms by (simp add: main_cli_def)

lemma handle_username_failure:
  assumes "fetcher sg u = Some f" "result f = None"
  shows "handle_username sg u fs = Some (printed f @ [Line ''Error fetching data.''], fs)"
  using assms by (simp add: handle_username_def)

section \<open>Rate limiting\<close>

lemma reset_line:
  assumes "- 62135596800 \<le> t" "t \<le> 253402280999"
  shows "\<exists>ist_time. utc_fromtimestamp (t + timedelta 5 30) = Inr ist_time
           \<and> convert_reset_to_ist t = Inr (strftime_ist ist_time)
           \<and> (- 30610243800 \<le> t \<longrightarrow> is_reset_format (strftime_ist ist_time))"
proof -
  let ?dt = "\<lparr>ordinal = (t + 19800) div 86400 + 719163,
              second_of_day = (t + 19800) mod 86400\<rparr>"
  have "utc_fromtimestamp (t + 19800) = Inr ?dt"
    by (rule utc_fromtimestamp_value) (use assms in simp_all)
  moreover have "convert_reset_to_ist t = Inr (strftime_ist ?dt)"
    by (rule convert_reset_to_ist_value [OF assms])
  moreover have "is_reset_format (strftime_ist ?dt)" if "- 30610243800 \<le> t"
    using convert_reset_to_ist_format [OF that assms(2)] calculation(2) by simp
  ultimately show ?thesis
    by (simp add: timedelta_def)
qed

lemma py_int_raises: "py_int s = Inl e \<Longrightarrow> e = ValueError"
  by (auto simp: py_int_def Let_def split: list.splits option.splits if_splits)

text \<open>A numeral of more than 4300 digits is rejected, whatever its digits are.\<close>

lemma py_int_too_long:
  assumes "list_all is_digit s" and "4300 < length s"
  shows "py_int s = Inl ValueError"
proof -
  have no_space: "\<not> is_int_space c" if "is_digit c" for c
    using that by (auto simp: is_digit_def is_int_space_def)
  obtain c cs where s: "s = c # cs"
    using assms(2) by (cases s) auto
  obtain bs b where s': "s = bs @ [b]"
    using assms(2) by (cases s rule: rev_cases) auto
  have "c \<in> set s" "b \<in> set s"
    by (simp add: s) (simp add: s')
  then have "is_digit c" "is_digit b"
    using assms(1) by (simp_all add: list_all_iff)
  then have "dropWhile is_int_space s = s"
    using no_space by (simp add: s)
  moreover have "dropWhile is_int_space (rev s) = rev s"
    using \<open>is_digit b\<close> no_space by (simp add: s')
  ultimately have strip: "rev (dropWhile is_int_space (rev (dropWhile is_int_space s))) = c # cs"
    by (simp add: s)
  have sign: "c \<noteq> CHR ''-''" "c \<noteq> CHR ''+''"
    using \<open>is_digit c\<close> by (auto simp: is_digit_def)
  have "filter is_digit (c # cs) = c # cs"
    using assms(1) unfolding s by (simp add: list_all_iff filter_id_conv)
  then have "int_max_str_digits < length (filter is_digit (c # cs))"
    using assms(2) by (simp add: s int_max_str_digits_def)
  then show ?thesis
    unfolding py_int_def strip using sign
    by (simp add: Let_def split: option.splits)
qed

lemma rate_limited_got:
  "rate_limited (Some v) (make_request url p) =
     Got \<lparr>status_code = 403, headers = [''x-ratelimit-reset'' \<mapsto> v], json_body = None\<rparr>"
  by (simp add: rate_limited_def)

lemma requests_of_first: "requests_of url 1 (Suc 1) = [make_request url 1]"
  by (simp add: requests_of_def)

text \<open>
  Claim C3, as amended. A response with status 403 and a non-empty \<open>X-RateLimit-Reset\<close>
  header ends the run: \<open>fetcher\<close> returns \<open>None\<close>, prints one line and sends no further
  request (the request for that page is the last one, sent once). When \<open>int\<close> reads the
  header as a timestamp \<open>t\<close> from \<open>-62135596800\<close> (the first second of year 1) to
  \<open>253402280999\<close> (5 hours 30 minutes before the end of year 9999), the line printed is
  \<open>Rate limit exceeded. It will reset at:\<close> followed by the UTC time of \<open>t\<close> plus 5 hours
  30 minutes; from \<open>t = -30610243800\<close> on, where the year has four digits, it has the form
  \<open>DD-Mon-YYYY HH:MM:SS AM/PM IST\<close>. For every other header no reset time is printed: the
  line is the message of the exception raised, \<open>ValueError\<close> when \<open>int\<close> rejects the text
  or the year of \<open>t\<close> is outside 1 to 9999, \<open>OSError\<close> or \<open>OverflowError\<close> when \<open>t\<close> is
  beyond what the C library or \<open>time_t\<close> can hold, and \<open>OverflowError\<close> when adding the
  offset leaves year 9999.
\<close>

theorem rate_limit_reset_time:
  assumes "1 \<le> n" and "full_pages session_get (get_url username) pages 1 n"
    and "session_get (make_request (get_url username) n) = Got resp"
    and "status_code resp = 403"
    and "headers_get resp ''X-RateLimit-Reset'' = Some reset_ts" and "reset_ts \<noteq> []"
  shows "\<exists>l. fetcher session_get username =
              Some \<lparr>result = None, printed = [l],
                    requests =
                      map (\<lambda>p. \<lparr>req_url = ''https://api.github.com/users/'' @ username @ ''/repos'',
                                param_type = ''owner'', param_sort = ''updated'',
                                param_direction = ''desc'', param_per_page = 30,
                                param_page = p, timeout_connect = 2, timeout_read = 10\<rparr>)
                        [1..<Suc n]\<rparr>
           \<and> (case py_int reset_ts of
                 Inl e \<Rightarrow> l = ExnLine ValueError
               | Inr t \<Rightarrow>
                   if - 62135596800 \<le> t \<and> t \<le> 253402280999 then
                     (\<exists>ist_time. utc_fromtimestamp (t + timedelta 5 30) = Inr ist_time
                        \<and> l = Line (''Rate limit exceeded. It will reset at: ''
                                     @ strftime_ist ist_time)
                        \<and> (- 30610243800 \<le> t \<longrightarrow> is_reset_format (strftime_ist ist_time)))
                   else
                     l = ExnLine
                           (if t < - 9223372036854775808 \<or> 9223372036854775807 < t
                            then OverflowError
                            else if t < - 67768040609740800 \<or> 67768036191676799 < t
                            then OSError
                            else if t < - 62135596800 \<or> 253402300799 < t then ValueError
                            else OverflowError))"
proof -
  note hr = handle_response_reset [OF assms(4-6), of "records_of pages 1 n"]
  note last = fetcher_last [OF assms(1-3), unfolded requests_of_account]
  show ?thesis
  proof (cases "py_int reset_ts")
    case (Inl e)
    then have "e = ValueError" by (rule py_int_raises)
    then have "handle_response resp (records_of pages 1 n) = Raise ValueError"
      using hr Inl by simp
    from last(2) [OF this] show ?thesis using Inl by (simp add: handler_line_def)
  next
    case (Inr t)
    note parsed = Inr
    show ?thesis
    proof (cases "- 62135596800 \<le> t \<and> t \<le> 253402280999")
      case True
      then obtain ist_time where ist:
        "utc_fromtimestamp (t + timedelta 5 30) = Inr ist_time"
        "convert_reset_to_ist t = Inr (strftime_ist ist_time)"
        "- 30610243800 \<le> t \<longrightarrow> is_reset_format (strftime_ist ist_time)"
        using reset_line [of t] by blast
      have "handle_response resp (records_of pages 1 n) =
            Return_None (Line (''Rate limit exceeded. It will reset at: ''
                               @ strftime_ist ist_time))"
        using hr parsed ist(2) by simp
      from last(1) [OF this] show ?thesis
        using parsed True ist(1,3) by simp
    next
      case False
      define e where "e = (if t < - 9223372036854775808 \<or> 9223372036854775807 < t
                            then OverflowError
                            else if t < - 67768040609740800 \<or> 67768036191676799 < t
                            then OSError
                            else if t < - 62135596800 \<or> 253402300799 < t then ValueError
                            else OverflowError)"
      have "convert_reset_to_ist t = Inl e"
        unfolding e_def by (rule convert_reset_to_ist_raises) (use False in linarith)
      then have "handle_response resp (records_of pages 1 n) = Raise e"
        using hr parsed by simp
      from last(2) [OF this]
      have "fetcher session_get username =
            Some \<lparr>result = None, printed = [ExnLine e],
                  requests =
                      map (\<lambda>p. \<lparr>req_url = ''https://api.github.com/users/'' @ username @ ''/repos'',
                                param_type = ''owner'', param_sort = ''updated'',
                                param_direction = ''desc'', param_per_page = 30,
                                param_page = p, timeout_connect = 2, timeout_read = 10\<rparr>)
                        [1..<Suc n]\<rparr>"
        by (simp add: handler_line_def e_def)
      then show ?thesis
        using parsed False unfolding e_def by simp
    qed
  qed
qed

text \<open>
  The header \<open>1700000000\<close> gives 15 November 2023, 03:43:20 in the morning, and the header
  \<open>-1\<close> gives the second before 05:30 on 1 January 1970.
\<close>

theorem rate_limit_reset_time_witness:
  "fetcher (rate_limited (Some ''1700000000'')) ''octocat'' =
     Some \<lparr>result = None,
           printed = [Line ''Rate limit exceeded. It will reset at: 15-Nov-2023 03:43:20 AM IST''],
           requests =
             [\<lparr>req_url = ''https://api.github.com/users/octocat/repos'',
                       param_type = ''owner'', param_sort = ''updated'',
                       param_direction = ''desc'', param_per_page = 30, param_page = 1,
                       timeout_connect = 2, timeout_read = 10\<rparr>]\<rparr>
   \<and> fetcher (rate_limited (Some ''-1'')) ''octocat'' =
     Some \<lparr>result = None,
           printed = [Line ''Rate limit exceeded. It will reset at: 01-Jan-1970 05:29:59 AM IST''],
           requests =
             [\<lparr>req_url = ''https://api.github.com/users/octocat/repos'',
                       param_type = ''owner'', param_sort = ''updated'',
                       param_direction = ''desc'', param_per_page = 30, param_page = 1,
                       timeout_connect = 2, timeout_read = 10\<rparr>]\<rparr>"
proof -
  have hdr: "headers_get \<lparr>status_code = 403, headers = [''x-ratelimit-reset'' \<mapsto> v],
                json_body = None\<rparr> ''X-RateLimit-Reset'' = Some v" for v
    by (simp add: headers_get_def lower_RateLimit_Reset)
  have parsed: "py_int ''1700000000'' = Inr 1700000000" "py_int ''-1'' = Inr (- 1)"
    by (simp_all add: py_int_def is_int_space_def unsigned_int_def is_digit_def
          digit_val_def int_max_str_digits_def)
  have utc: "utc_fromtimestamp (1700000000 + timedelta 5 30) =
             Inr \<lparr>ordinal = 738839, second_of_day = 13400\<rparr>"
    "utc_fromtimestamp (- 1 + timedelta 5 30) =
             Inr \<lparr>ordinal = 719163, second_of_day = 19799\<rparr>"
    by (simp_all add: utc_fromtimestamp_def timedelta_def EPOCH_ORDINAL_def MAXORDINAL_def
          TIME_T_MIN_def TIME_T_MAX_def GMTIME_MIN_def GMTIME_MAX_def)
  have shown: "strftime_ist \<lparr>ordinal = 738839, second_of_day = 13400\<rparr> =
               ''15-Nov-2023 03:43:20 AM IST''"
    "strftime_ist \<lparr>ordinal = 719163, second_of_day = 19799\<rparr> =
               ''01-Jan-1970 05:29:59 AM IST''"
    by code_simp+
  from rate_limit_reset_time
         [of 1 "rate_limited (Some ''1700000000'')" "''octocat''" "\<lambda>p. []" _ "''1700000000''",
          OF le_refl full_pages_empty rate_limited_got _ hdr]
  obtain l where "fetcher (rate_limited (Some ''1700000000'')) ''octocat'' =
              Some \<lparr>result = None, printed = [l],
                    requests =
             [\<lparr>req_url = ''https://api.github.com/users/octocat/repos'',
                       param_type = ''owner'', param_sort = ''updated'',
                       param_direction = ''desc'', param_per_page = 30, param_page = 1,
                       timeout_connect = 2, timeout_read = 10\<rparr>]\<rparr>"
    and "\<exists>ist_time. utc_fromtimestamp (1700000000 + timedelta 5 30) = Inr ist_time
           \<and> l = Line (''Rate limit exceeded. It will reset at: '' @ strftime_ist ist_time)"
    by (auto simp: parsed)
  then have first: "fetcher (rate_limited (Some ''1700000000'')) ''octocat'' =
     Some \<lparr>result = None,
           printed = [Line ''Rate limit exceeded. It will reset at: 15-Nov-2023 03:43:20 AM IST''],
           requests =
             [\<lparr>req_url = ''https://api.github.com/users/octocat/repos'',
                       param_type = ''owner'', param_sort = ''updated'',
                       param_direction = ''desc'', param_per_page = 30, param_page = 1,
                       timeout_connect = 2, timeout_read = 10\<rparr>]\<rparr>"
    using utc(1) shown(1) by auto
  from rate_limit_reset_time
         [of 1 "rate_limited (Some ''-1'')" "''octocat''" "\<lambda>p. []" _ "''-1''",
          OF le_refl full_pages_empty rate_limited_got _ hdr]
  obtain l where "fetcher (rate_limited (Some ''-1'')) ''octocat'' =
              Some \<lparr>result = None, printed = [l],
                    requests =
             [\<lparr>req_url = ''https://api.github.com/users/octocat/repos'',
                       param_type = ''owner'', param_sort = ''updated'',
                       param_direction = ''desc'', param_per_page = 30, param_page = 1,
                       timeout_connect = 2, timeout_read = 10\<rparr>]\<rparr>"
    and "\<exists>ist_time. utc_fromtimestamp (- 1 + timedelta 5 30) = Inr ist_time
           \<and> l = Line (''Rate limit exceeded. It will reset at: '' @ strftime_ist ist_time)"
    by (auto simp: parsed)
  then have "fetcher (rate_limited (Some ''-1'')) ''octocat'' =
     Some \<lparr>result = None,
           printed = [Line ''Rate limit exceeded. It will reset at: 01-Jan-1970 05:29:59 AM IST''],
           requests =
             [\<lparr>req_url = ''https://api.github.com/users/octocat/repos'',
                       param_type = ''owner'', param_sort = ''updated'',
                       param_direction = ''desc'', param_per_page = 30, param_page = 1,
                       timeout_connect = 2, timeout_read = 10\<rparr>]\<rparr>"
    using utc(2) shown(2) by auto
  then show ?thesis
    using first by simp
qed

text \<open>
  Claim C3 as stated fails in three ways. For a header that is not a number \<open>int\<close> raises
  \<open>ValueError\<close>, and for the timestamp \<open>253402300800\<close>, the first second of year 10000,
  \<open>fromtimestamp\<close> raises \<open>ValueError\<close>: the handler for \<open>Exception\<close> prints the exception
  and no reset time. For the timestamp \<open>-62135596800\<close> the year printed is \<open>1\<close>, which is
  not of the form \<open>YYYY\<close>. A number behind the separator U+001C and a numeral of 4301
  digits are rejected by \<open>int\<close> as well.
\<close>

theorem rate_limit_reset_time_counterexample:
  "fetcher (rate_limited (Some ''soon'')) ''octocat'' =
     Some \<lparr>result = None, printed = [ExnLine ValueError],
           requests =
             [\<lparr>req_url = ''https://api.github.com/users/octocat/repos'',
                       param_type = ''owner'', param_sort = ''updated'',
                       param_direction = ''desc'', param_per_page = 30, param_page = 1,
                       timeout_connect = 2, timeout_read = 10\<rparr>]\<rparr>
   \<and> fetcher (rate_limited (Some ''253402300800'')) ''octocat'' =
     Some \<lparr>result = None, printed = [ExnLine ValueError],
           requests =
             [\<lparr>req_url = ''https://api.github.com/users/octocat/repos'',
                       param_type = ''owner'', param_sort = ''updated'',
                       param_direction = ''desc'', param_per_page = 30, param_page = 1,
                       timeout_connect = 2, timeout_read = 10\<rparr>]\<rparr>
   \<and> fetcher (rate_limited (Some ''-62135596800'')) ''octocat'' =
     Some \<lparr>result = None,
           printed = [Line ''Rate limit exceeded. It will reset at: 01-Jan-1 05:30:00 AM IST''],
           requests =
             [\<lparr>req_url = ''https://api.github.com/users/octocat/repos'',
                       param_type = ''owner'', param_sort = ''updated'',
                       param_direction = ''desc'', param_per_page = 30, param_page = 1,
                       timeout_connect = 2, timeout_read = 10\<rparr>]\<rparr>
   \<and> \<not> is_reset_format ''01-Jan-1 05:30:00 AM IST''
   \<and> printed (the (fetcher (rate_limited (Some [CHR 0x1C, CHR ''7''])) ''octocat'')) =
       [ExnLine ValueError]
   \<and> printed (the (fetcher (rate_limited (Some (replicate 4301 (CHR ''1'')))) ''octocat'')) =
       [ExnLine ValueError]"
proof -
  have hdr: "headers_get \<lparr>status_code = 403, headers = [''x-ratelimit-reset'' \<mapsto> v],
                json_body = None\<rparr> ''X-RateLimit-Reset'' = Some v" for v
    by (simp add: headers_get_def lower_RateLimit_Reset)
  have parsed: "py_int ''soon'' = Inl ValueError"
    "py_int ''253402300800'' = Inr 253402300800"
    "py_int ''-62135596800'' = Inr (- 62135596800)"
    by (simp_all add: py_int_def is_int_space_def unsigned_int_def is_digit_def
          digit_val_def int_max_str_digits_def)
  have conv: "convert_reset_to_ist 253402300800 = Inl ValueError"
    using convert_reset_to_ist_raises [of 253402300800] by simp
  have "convert_reset_to_ist (- 62135596800) =
        Inr (strftime_ist \<lparr>ordinal = 1, second_of_day = 19800\<rparr>)"
    using convert_reset_to_ist_value [of "- 62135596800"] by simp
  moreover have "strftime_ist \<lparr>ordinal = 1, second_of_day = 19800\<rparr> =
                 ''01-Jan-1 05:30:00 AM IST''"
    by code_simp
  ultimately have first: "convert_reset_to_ist (- 62135596800) = Inr ''01-Jan-1 05:30:00 AM IST''"
    by simp
  have h1: "handle_response \<lparr>status_code = 403, headers = [''x-ratelimit-reset'' \<mapsto> ''soon''],
                json_body = None\<rparr> (records_of (\<lambda>p. []) 1 1) = Raise ValueError"
    using handle_response_reset [OF _ hdr [of "''soon''"]] parsed(1) by simp
  have h2: "handle_response
              \<lparr>status_code = 403, headers = [''x-ratelimit-reset'' \<mapsto> ''253402300800''],
                json_body = None\<rparr> (records_of (\<lambda>p. []) 1 1) = Raise ValueError"
    using handle_response_reset [OF _ hdr [of "''253402300800''"]] parsed(2) conv by simp
  have h3: "handle_response
              \<lparr>status_code = 403, headers = [''x-ratelimit-reset'' \<mapsto> ''-62135596800''],
                json_body = None\<rparr> (records_of (\<lambda>p. []) 1 1) =
            Return_None (Line ''Rate limit exceeded. It will reset at: 01-Jan-1 05:30:00 AM IST'')"
    using handle_response_reset [OF _ hdr [of "''-62135596800''"]] parsed(3) first by simp
  have "fetcher (rate_limited (Some ''soon'')) ''octocat'' =
     Some \<lparr>result = None, printed = [ExnLine ValueError],
           requests =
             [\<lparr>req_url = ''https://api.github.com/users/octocat/repos'',
                       param_type = ''owner'', param_sort = ''updated'',
                       param_direction = ''desc'', param_per_page = 30, param_page = 1,
                       timeout_connect = 2, timeout_read = 10\<rparr>]\<rparr>"
    using fetcher_last(2) [of 1 "rate_limited (Some ''soon'')" "''octocat''" "\<lambda>p. []",
         OF le_refl full_pages_empty rate_limited_got h1]
    by (simp add: handler_line_def requests_of_account)
  moreover have "fetcher (rate_limited (Some ''253402300800'')) ''octocat'' =
     Some \<lparr>result = None, printed = [ExnLine ValueError],
           requests =
             [\<lparr>req_url = ''https://api.github.com/users/octocat/repos'',
                       param_type = ''owner'', param_sort = ''updated'',
                       param_direction = ''desc'', param_per_page = 30, param_page = 1,
                       timeout_connect = 2, timeout_read = 10\<rparr>]\<rparr>"
    using fetcher_last(2) [of 1 "rate_limited (Some ''253402300800'')" "''octocat''" "\<lambda>p. []",
         OF le_refl full_pages_empty rate_limited_got h2]
    by (simp add: handler_line_def requests_of_account)
  moreover have "fetcher (rate_limited (Some ''-62135596800'')) ''octocat'' =
     Some \<lparr>result = None,
           printed = [Line ''Rate limit exceeded. It will reset at: 01-Jan-1 05:30:00 AM IST''],
           requests =
             [\<lparr>req_url = ''https://api.github.com/users/octocat/repos'',
                       param_type = ''owner'', param_sort = ''updated'',
                       param_direction = ''desc'', param_per_page = 30, param_page = 1,
                       timeout_connect = 2, timeout_read = 10\<rparr>]\<rparr>"
    using fetcher_last(1) [of 1 "rate_limited (Some ''-62135596800'')" "''octocat''" "\<lambda>p. []",
         OF le_refl full_pages_empty rate_limited_got h3]
    by (simp add: requests_of_account)
  moreover have "\<not> is_reset_format ''01-Jan-1 05:30:00 AM IST''"
    by (simp add: is_reset_format_def)
  moreover have "printed (the (fetcher (rate_limited (Some v)) ''octocat'')) =
                 [ExnLine ValueError]"
    if "py_int v = Inl ValueError" and "v \<noteq> []" for v
  proof -
    have "handle_response \<lparr>status_code = 403, headers = [''x-ratelimit-reset'' \<mapsto> v],
                json_body = None\<rparr> (records_of (\<lambda>p. []) 1 1) = Raise ValueError"
      using handle_response_reset [OF _ hdr [of v]] that by simp
    from fetcher_last(2) [of 1 "rate_limited (Some v)" "''octocat''" "\<lambda>p. []",
           OF le_refl full_pages_empty rate_limited_got this]
    show ?thesis by (simp add: handler_line_def)
  qed
  moreover have "py_int [CHR 0x1C, CHR ''7''] = Inl ValueError"
    by (simp add: py_int_def is_int_space_def unsigned_int_def is_digit_def)
  moreover have "py_int (replicate 4301 (CHR ''1'')) = Inl ValueError"
    by (rule py_int_too_long) (simp_all add: list_all_iff is_digit_def)
  moreover have "replicate 4301 (CHR ''1'') \<noteq> []"
    by simp
  ultimately show ?thesis by simp
qed

text \<open>
  Claim C10. A response with status 403 whose \<open>X-RateLimit-Reset\<close> header is absent or
  the empty string ends the run: \<open>fetcher\<close> returns \<open>None\<close>, the only line printed says
  that no reset time was provided, and the request for that page is the last one sent.
\<close>

theorem rate_limit_without_reset:
  assumes "1 \<le> n" and "full_pages session_get (get_url username) pages 1 n"
    and "session_get (make_request (get_url username) n) = Got resp"
    and "status_code resp = 403"
    and "headers_get resp ''X-RateLimit-Reset'' = None
         \<or> headers_get resp ''X-RateLimit-Reset'' = Some []"
  shows "fetcher session_get username =
         Some \<lparr>result = None,
               printed = [Line ''Rate limit exceeded. No reset time provided.''],
               requests = requests_of (get_url username) 1 (Suc n)\<rparr>"
  by (rule fetcher_last(1) [OF assms(1-3)]) (rule handle_response_no_reset [OF assms(4,5)])

theorem rate_limit_without_reset_witness:
  "fetcher (rate_limited None) ''octocat'' =
     Some \<lparr>result = None,
           printed = [Line ''Rate limit exceeded. No reset time provided.''],
           requests = [make_request (get_url ''octocat'') 1]\<rparr>
   \<and> fetcher (rate_limited (Some [])) ''octocat'' =
     Some \<lparr>result = None,
           printed = [Line ''Rate limit exceeded. No reset time provided.''],
           requests = [make_request (get_url ''octocat'') 1]\<rparr>"
proof -
  have reqs: "requests_of u 1 (Suc 1) = [make_request u 1]" for u
    by (simp add: requests_of_def)
  have got: "rate_limited h (make_request (get_url ''octocat'') 1) =
             Got \<lparr>status_code = 403,
                  headers = (case h of None \<Rightarrow> Map.empty
                             | Some v \<Rightarrow> [''x-ratelimit-reset'' \<mapsto> v]),
                  json_body = None\<rparr>" for h
    by (simp add: rate_limited_def)
  have "fetcher (rate_limited None) ''octocat'' =
     Some \<lparr>result = None,
           printed = [Line ''Rate limit exceeded. No reset time provided.''],
           requests = requests_of (get_url ''octocat'') 1 (Suc 1)\<rparr>"
    by (rule rate_limit_without_reset
          [of 1 "rate_limited None" "''octocat''" "\<lambda>p. []", OF _ full_pages_empty got])
       (simp_all add: headers_get_def)
  moreover have "fetcher (rate_limited (Some [])) ''octocat'' =
     Some \<lparr>result = None,
           printed = [Line ''Rate limit exceeded. No reset time provided.''],
           requests = requests_of (get_url ''octocat'') 1 (Suc 1)\<rparr>"
    by (rule rate_limit_without_reset
          [of 1 "rate_limited (Some [])" "''octocat''" "\<lambda>p. []", OF _ full_pages_empty got])
       (simp_all add: headers_get_def lower_RateLimit_Reset)
  ultimately show ?thesis
    unfolding reqs by simp
qed

section \<open>Responses that are not JSON\<close>

text \<open>
  Claim C4. When the response for a page has a Content-Type without \<open>application/json\<close>
  (in any letter case), or its body does not parse as JSON, \<open>fetcher\<close> prints one line
  and returns \<open>None\<close>; for a status that is neither 403 nor an error status the line is
  \<open>Not JSON\<close> or \<open>Invalid JSON\<close>. The caller then writes nothing: in non-interactive mode
  the run ends with status 1 and the file system as it was, and one pass of the
  interactive loop leaves the file system as it was.
\<close>

theorem bad_content_fails:
  assumes "1 \<le> n" and "full_pages session_get (get_url username) pages 1 n"
    and "session_get (make_request (get_url username) n) = Got resp"
    and "\<not> str_contains ''application/json'' (py_lower (content_type resp))
         \<or> json_body resp = None"
  shows "\<exists>l. fetcher session_get username =
              Some \<lparr>result = None, printed = [l],
                    requests = requests_of (get_url username) 1 (Suc n)\<rparr>
           \<and> (status_code resp \<noteq> 403 \<and> \<not> http_error (status_code resp) \<longrightarrow>
                l = (if str_contains ''application/json'' (py_lower (content_type resp))
                     then Line ''Invalid JSON'' else Line ''Not JSON''))
           \<and> (\<exists>out. main_cli session_get username output_file fs =
                       Some \<lparr>exit_code = 1, stdout = out, final_fs = fs\<rparr>)
           \<and> (\<exists>lines. handle_username session_get username fs = Some (lines, fs))"
proof -
  let ?reqs = "requests_of (get_url username) 1 (Suc n)"
  have after: ?thesis
    if f: "fetcher session_get username = Some \<lparr>result = None, printed = [l], requests = ?reqs\<rparr>"
      and l: "status_code resp \<noteq> 403 \<and> \<not> http_error (status_code resp) \<longrightarrow>
                l = (if str_contains ''application/json'' (py_lower (content_type resp))
                     then Line ''Invalid JSON'' else Line ''Not JSON'')"
    for l
  proof -
    have "main_cli session_get username output_file fs =
          Some \<lparr>exit_code = 1,
                stdout = Line (''Fetching repos for user: '' @ username) # [l]
                         @ [Line ''Error fetching data.''],
                final_fs = fs\<rparr>"
      using main_cli_failure [OF f] by simp
    moreover have "handle_username session_get username fs =
          Some ([l] @ [Line ''Error fetching data.''], fs)"
      using handle_username_failure [OF f] by simp
    ultimately show ?thesis using f l by blast
  qed
  note last = fetcher_last [OF assms(1-3)]
  consider (ret) l where "handle_response resp (records_of pages 1 n) = Return_None l"
    | (exn) e where "handle_response resp (records_of pages 1 n) = Raise e"
    using handle_response_bad_content [OF assms(4)] by blast
  then show ?thesis
  proof cases
    case ret
    have "status_code resp \<noteq> 403 \<and> \<not> http_error (status_code resp) \<longrightarrow>
                l = (if str_contains ''application/json'' (py_lower (content_type resp))
                     then Line ''Invalid JSON'' else Line ''Not JSON'')"
      using ret assms(4) handle_response_not_json [of resp "records_of pages 1 n"]
      by (cases "str_contains ''application/json'' (py_lower (content_type resp))") auto
    with last(1) [OF ret] show ?thesis by (rule after)
  next
    case exn
    have "status_code resp \<noteq> 403 \<and> \<not> http_error (status_code resp) \<longrightarrow>
                handler_line e = (if str_contains ''application/json'' (py_lower (content_type resp))
                     then Line ''Invalid JSON'' else Line ''Not JSON'')"
      using exn assms(4) handle_response_not_json [of resp "records_of pages 1 n"]
      by (cases "str_contains ''application/json'' (py_lower (content_type resp))") auto
    with last(2) [OF exn] show ?thesis by (rule after)
  qed
qed

text \<open>An HTML page gives \<open>Not JSON\<close>, a body that does not parse gives \<open>Invalid JSON\<close>.\<close>

theorem bad_content_fails_witness:
  "fetcher html_server ''octocat'' =
     Some \<lparr>result = None, printed = [Line ''Not JSON''],
           requests = [make_request (get_url ''octocat'') 1]\<rparr>
   \<and> fetcher garbled_server ''octocat'' =
     Some \<lparr>result = None, printed = [Line ''Invalid JSON''],
           requests = [make_request (get_url ''octocat'') 1]\<rparr>
   \<and> (\<exists>out. main_cli html_server ''octocat'' ''github_repos.json'' empty_fs =
              Some \<lparr>exit_code = 1, stdout = out, final_fs = empty_fs\<rparr>)"
proof -
  let ?html = "\<lparr>status_code = 200, headers = [''content-type'' \<mapsto> ''text/html; charset=utf-8''],
          json_body = None\<rparr>"
  let ?garbled = "\<lparr>status_code = 200, headers = [''content-type'' \<mapsto> ''application/json''],
          json_body = None\<rparr>"
  have html_ct: "content_type ?html = ''text/html; charset=utf-8''"
    and garbled_ct: "content_type ?garbled = ''application/json''"
    by (simp_all add: content_type_def headers_get_def lower_Content_Type)
  have not_json: "\<not> str_contains ''application/json'' (py_lower ''text/html; charset=utf-8'')"
    by code_simp
  have is_json: "str_contains ''application/json'' (py_lower ''application/json'')"
    by code_simp
  have ok: "status_code ?html \<noteq> 403 \<and> \<not> http_error (status_code ?html)"
    "status_code ?garbled \<noteq> 403 \<and> \<not> http_error (status_code ?garbled)"
    by (simp_all add: http_error_def)
  have got: "html_server (make_request (get_url ''octocat'') 1) = Got ?html"
    "garbled_server (make_request (get_url ''octocat'') 1) = Got ?garbled"
    by (simp_all add: html_server_def garbled_server_def)
  have bad1: "\<not> str_contains ''application/json'' (py_lower (content_type ?html))
         \<or> json_body ?html = None"
    by simp
  have bad2: "\<not> str_contains ''application/json'' (py_lower (content_type ?garbled))
         \<or> json_body ?garbled = None"
    by simp
  from bad_content_fails [of 1 html_server "''octocat''" "\<lambda>p. []" ?html "''github_repos.json''" empty_fs,
         OF le_refl full_pages_empty got(1) bad1]
  obtain l1 where 1: "fetcher html_server ''octocat'' =
              Some \<lparr>result = None, printed = [l1],
                    requests = requests_of (get_url ''octocat'') 1 (Suc 1)\<rparr>"
    "status_code ?html \<noteq> 403 \<and> \<not> http_error (status_code ?html) \<longrightarrow>
                l1 = (if str_contains ''application/json'' (py_lower (content_type ?html))
                     then Line ''Invalid JSON'' else Line ''Not JSON'')"
    "\<exists>out. main_cli html_server ''octocat'' ''github_repos.json'' empty_fs =
                       Some \<lparr>exit_code = 1, stdout = out, final_fs = empty_fs\<rparr>"
    by blast
  from bad_content_fails [of 1 garbled_server "''octocat''" "\<lambda>p. []" ?garbled "''github_repos.json''" empty_fs,
         OF le_refl full_pages_empty got(2) bad2]
  obtain l2 where 2: "fetcher garbled_server ''octocat'' =
              Some \<lparr>result = None, printed = [l2],
                    requests = requests_of (get_url ''octocat'') 1 (Suc 1)\<rparr>"
    "status_code ?garbled \<noteq> 403 \<and> \<not> http_error (status_code ?garbled) \<longrightarrow>
                l2 = (if str_contains ''application/json'' (py_lower (content_type ?garbled))
                     then Line ''Invalid JSON'' else Line ''Not JSON'')"
    by blast
  have "l1 = Line ''Not JSON''"
    using 1(2) ok(1) not_json unfolding html_ct by simp
  moreover have "l2 = Line ''Invalid JSON''"
    using 2(2) ok(2) is_json unfolding garbled_ct by simp
  ultimately show ?thesis
    using 1(1,3) 2(1) unfolding requests_of_first by simp
qed

section \<open>Outcomes and exit codes\<close>






lemma records_30_0: "records_of pages_30_0 1 (Suc 2) = replicate 30 (summary sample_repo)"
  by (simp add: records_of_def pages_30_0_def upt_rec)







section \<open>Stripping and lower case\<close>

lemma of_char_less_256: "(of_char c :: nat) < 256"
proof -
  have "(of_char c :: nat) mod 256 = of_char c" by (rule of_char_mod_256)
  then show ?thesis by (metis mod_less_divisor zero_less_numeral)
qed

lemma is_space_lower_char: "is_space (lower_char c) = is_space c"
proof (cases "(65 \<le> (of_char c :: nat) \<and> (of_char c :: nat) \<le> 90)
              \<or> (192 \<le> (of_char c :: nat) \<and> (of_char c :: nat) \<le> 222 \<and> (of_char c :: nat) \<noteq> 215)")
  case True
  then have low: "(of_char (lower_char c) :: nat) = of_char c + 32"
    by (auto simp: lower_char_def Let_def)
  show ?thesis
    unfolding is_space_def low using True by auto
next
  case False
  then have "lower_char c = c" by (auto simp: lower_char_def Let_def)
  then show ?thesis by simp
qed

lemma dropWhile_is_space_lower:
  "dropWhile is_space (py_lower s) = py_lower (dropWhile is_space s)"
  by (induction s) (simp_all add: py_lower_def is_space_lower_char)

lemma py_lower_rev: "py_lower (rev s) = rev (py_lower s)"
  by (simp add: py_lower_def rev_map)

lemma strip_lower_commute: "py_strip (py_lower s) = py_lower (py_strip s)"
  by (simp add: py_strip_def dropWhile_is_space_lower py_lower_rev [symmetric])

section \<open>The writer\<close>

lemma ascii_simps [simp]:
  "ascii []" "ascii (c # s) = ((of_char c :: nat) < 128 \<and> ascii s)"
  "ascii (s @ t) = (ascii s \<and> ascii t)"
  by (simp_all add: ascii_def)

lemma utf8_encode_ascii: "ascii s \<Longrightarrow> utf8_encode s = s"
  by (induction s) (simp_all add: utf8_encode_def utf8_char_def)

lemma ascii_digit_char: "n < 10 \<Longrightarrow> (of_char (digit_char n) :: nat) < 128"
proof -
  assume "n < 10"
  then consider "n = 0" | "n = 1" | "n = 2" | "n = 3" | "n = 4" | "n = 5" | "n = 6"
    | "n = 7" | "n = 8" | "n = 9"
    by atomize_elim presburger
  then show ?thesis
    by cases (simp_all add: digit_char_def)
qed

lemma ascii_show_nat: "ascii (show_nat n)"
proof (induction n rule: show_nat.induct)
  case (1 n)
  show ?case
  proof (cases "n < 10")
    case True
    then show ?thesis by (subst show_nat.simps) (simp add: ascii_digit_char)
  next
    case False
    then show ?thesis using 1 by (subst show_nat.simps) (simp add: ascii_digit_char)
  qed
qed

lemma ascii_show_int: "ascii (show_int i)"
  by (simp add: show_int_def ascii_show_nat)

lemma ascii_hex_digit: "n < 16 \<Longrightarrow> (of_char (hex_digit n) :: nat) < 128"
proof -
  assume "n < 16"
  then consider "n = 0" | "n = 1" | "n = 2" | "n = 3" | "n = 4" | "n = 5" | "n = 6"
    | "n = 7" | "n = 8" | "n = 9" | "n = 10" | "n = 11" | "n = 12" | "n = 13"
    | "n = 14" | "n = 15"
    by atomize_elim presburger
  then show ?thesis
    by cases (simp_all add: hex_digit_def)
qed

lemma ascii_escape_char: "ascii (escape_char c)"
proof -
  have "(of_char c :: nat) div 16 < 16"
    using of_char_less_256 [of c] by linarith
  then show ?thesis
    by (simp add: escape_char_def Let_def ascii_hex_digit)
qed

lemma ascii_encode_string: "ascii (encode_string s)"
  by (induction s) (simp_all add: encode_string_def ascii_escape_char)

lemma ascii_newline_indent: "ascii (newline_indent level)"
  by (simp add: newline_indent_def ascii_def list_all_iff)

lemma ascii_join: "ascii sep \<Longrightarrow> (\<And>x. x \<in> set xs \<Longrightarrow> ascii x) \<Longrightarrow> ascii (join sep xs)"
  by (induction sep xs rule: join.induct) simp_all

lemma ascii_iterencode: "ascii (iterencode level v)"
proof (induction level v rule: iterencode.induct)
  case (5 level xs)
  then show ?case
    by (auto simp: ascii_newline_indent intro!: ascii_join)
next
  case (6 level kvs)
  then show ?case
    by (auto simp: ascii_newline_indent ascii_encode_string intro!: ascii_join)
qed (simp_all add: ascii_show_int ascii_encode_string)

lemma sample_dump: "json_dump_indent4 (PList [summary sample_repo]) = sample_file"
  by code_simp




section \<open>The interactive loop\<close>

text \<open>Whatever the server does, the requests of one call are the first pages of one URL.\<close>

lemma fetch_loop_requests:
  assumes "fetch_loop sg url page all_items sent = Some y"
  shows "\<exists>m. snd y = sent @ requests_of url page (Suc (page + m))"
proof (rule fetch_loop.raw_induct
    [where P = "\<lambda>sg url page all_items sent y.
                  \<exists>m. snd y = sent @ requests_of url page (Suc (page + m))", OF _ assms])
  fix loop sg url page all_items sent y
  assume 1: "\<And>sg' url' page' acc' sent' y'.
        loop sg' url' page' acc' sent' = Some y' \<Longrightarrow>
        \<exists>m. snd y' = sent' @ requests_of url' page' (Suc (page' + m))"
    "(let req = make_request url page; sent' = sent @ [req]
      in case sg req of
         Got resp \<Rightarrow>
           (case handle_response resp all_items of
              Return_None l \<Rightarrow> Some (Exit_None l, sent')
            | Raise e \<Rightarrow> Some (Exit_Raise e, sent')
            | Break all_items' \<Rightarrow> Some (Exit_Break all_items', sent')
            | Next_page all_items' \<Rightarrow> loop sg url (page + 1) all_items' sent')
         | Raised e \<Rightarrow> Some (Exit_Raise e, sent')) = Some y"
  have one: "requests_of url page (Suc (page + 0)) = [make_request url page]"
    by (simp add: requests_of_def)
  have more: "make_request url page # requests_of url (page + 1) (Suc (page + 1 + m)) =
              requests_of url page (Suc (page + Suc m))" for m
    by (simp add: requests_of_def upt_conv_Cons del: upt_Suc)
  have stop: "\<exists>m. snd y = sent @ requests_of url page (Suc (page + m))"
    if "snd y = sent @ [make_request url page]"
    using that one by metis
  show "\<exists>m. snd y = sent @ requests_of url page (Suc (page + m))"
  proof (cases "sg (make_request url page)")
    case (Raised e)
    then show ?thesis using 1(2) by (intro stop) (auto simp: Let_def)
  next
    case (Got resp)
    show ?thesis
    proof (cases "handle_response resp all_items")
      case (Return_None l)
      then show ?thesis using 1(2) Got by (intro stop) (auto simp: Let_def)
    next
      case (Raise e)
      then show ?thesis using 1(2) Got by (intro stop) (auto simp: Let_def)
    next
      case (Break items')
      then show ?thesis using 1(2) Got by (intro stop) (auto simp: Let_def)
    next
      case (Next_page items')
      then have "loop sg url (page + 1) items' (sent @ [make_request url page]) = Some y"
        using 1(2) Got by (simp add: Let_def)
      from 1(1) [OF this] obtain m where
        "snd y = (sent @ [make_request url page])
                 @ requests_of url (page + 1) (Suc (page + 1 + m))"
        by blast
      then have "snd y = sent @ requests_of url page (Suc (page + Suc m))"
        using more [of m] by simp
      then show ?thesis by blast
    qed
  qed
qed

lemma fetcher_requests:
  assumes "fetcher sg u = Some f"
  shows "\<exists>m. requests f = requests_of (get_url u) 1 (Suc (Suc m))"
proof -
  obtain ex sent where run: "fetch_loop sg (get_url u) 1 [] [] = Some (ex, sent)"
    using assms by (auto simp: fetcher_def split: option.splits)
  from fetch_loop_requests [OF this] obtain m where
    "sent = requests_of (get_url u) 1 (Suc (Suc m))"
    by auto
  moreover have "requests f = sent"
    using assms run by (cases ex) (auto simp: fetcher_def)
  ultimately show ?thesis by blast
qed

lemma write_sample:
  "write_file (Some [summary sample_repo]) ''github_repos.json'' empty_fs =
     Inr (empty_fs\<lparr>files := [''github_repos.json'' \<mapsto> sample_file]\<rparr>)"
proof -
  have "utf8_encode (json_dump_indent4 (PList [summary sample_repo])) =
        json_dump_indent4 (PList [summary sample_repo])"
    unfolding json_dump_indent4_def by (rule utf8_encode_ascii [OF ascii_iterencode])
  then have "utf8_encode (json_dump_indent4 (PList [summary sample_repo])) = sample_file"
    by (simp only: sample_dump)
  then show ?thesis
    by (simp add: write_file_def empty_fs_def)
qed

text \<open>
  Claim C9. In interactive mode an input line ends the loop exactly when, with the
  surrounding whitespace stripped and the letters in lower case, it is \<open>exit\<close> (the program
  lowers first and strips second, which gives the same text). Any other line is the
  account name, as typed: \<open>fetcher\<close> is called with it, every request of that call goes to
  \<open>https://api.github.com/users/<line>/repos\<close>, its records are written to
  \<open>github_repos.json\<close> or its failure is reported, and the loop goes on with the next
  line.
\<close>

theorem interactive_sentinel:
  "is_exit username = (py_lower (py_strip username) = ''exit'')
   \<and> interactive session_get (username # rest) out fs =
       (if py_lower (py_strip username) = ''exit'' then
          Some \<lparr>exit_code = 0, stdout = out @ [prompt], final_fs = fs\<rparr>
        else
          (case fetcher session_get username of
             None \<Rightarrow> None
           | Some f \<Rightarrow>
               (case result f of
                  None \<Rightarrow>
                    interactive session_get rest
                      (out @ [prompt] @ printed f @ [Line ''Error fetching data.'']) fs
                | Some [] \<Rightarrow>
                    interactive session_get rest
                      (out @ [prompt] @ printed f @ [Line ''No repos or Invalid account'']) fs
                | Some (r # rs) \<Rightarrow>
                    (case write_file (Some (r # rs)) ''github_repos.json'' fs of
                       Inr fs' \<Rightarrow>
                         interactive session_get rest
                           (out @ [prompt] @ printed f
                            @ [Line ''Logging repos to github_repos.json...'',
                               Line ''Repos logged to github_repos.json'']) fs'
                     | Inl e \<Rightarrow>
                         interactive session_get rest
                           (out @ [prompt] @ printed f
                            @ [Line ''Logging repos to github_repos.json...'',
                               Line_with_exn ''An Unexpected Error Occurred: '' e]) fs))))
   \<and> (\<forall>f. fetcher session_get username = Some f \<longrightarrow>
         requests f \<noteq> []
         \<and> (\<forall>req \<in> set (requests f).
               req_url req = ''https://api.github.com/users/'' @ username @ ''/repos''))"
proof -
  have sentinel: "is_exit username = (py_lower (py_strip username) = ''exit'')"
    by (simp add: is_exit_def strip_lower_commute)
  have loop: "interactive session_get (username # rest) out fs =
       (if py_lower (py_strip username) = ''exit'' then
          Some \<lparr>exit_code = 0, stdout = out @ [prompt], final_fs = fs\<rparr>
        else
          (case fetcher session_get username of
             None \<Rightarrow> None
           | Some f \<Rightarrow>
               (case result f of
                  None \<Rightarrow>
                    interactive session_get rest
                      (out @ [prompt] @ printed f @ [Line ''Error fetching data.'']) fs
                | Some [] \<Rightarrow>
                    interactive session_get rest
                      (out @ [prompt] @ printed f @ [Line ''No repos or Invalid account'']) fs
                | Some (r # rs) \<Rightarrow>
                    (case write_file (Some (r # rs)) ''github_repos.json'' fs of
                       Inr fs' \<Rightarrow>
                         interactive session_get rest
                           (out @ [prompt] @ printed f
                            @ [Line ''Logging repos to github_repos.json...'',
                               Line ''Repos logged to github_repos.json'']) fs'
                     | Inl e \<Rightarrow>
                         interactive session_get rest
                           (out @ [prompt] @ printed f
                            @ [Line ''Logging repos to github_repos.json...'',
                               Line_with_exn ''An Unexpected Error Occurred: '' e]) fs))))"
    by (subst interactive.simps)
       (simp add: sentinel handle_username_def split: option.splits list.splits sum.splits)
  have url: "requests f \<noteq> []
         \<and> (\<forall>req \<in> set (requests f).
               req_url req = ''https://api.github.com/users/'' @ username @ ''/repos'')"
    if "fetcher session_get username = Some f" for f
  proof -
    from fetcher_requests [OF that] obtain m where
      "requests f = requests_of (get_url username) 1 (Suc (Suc m))"
      by blast
    then show ?thesis
      by (simp add: requests_of_def make_request_def get_url_def upt_conv_Cons del: upt_Suc)
  qed
  show ?thesis
    using sentinel loop url by blast
qed

text \<open>
  \<open>EXIT\<close> and \<open>exit\<close> between spaces end the loop at once. The line \<open>octocat\<close> is looked up
  as an account and its repository is written to the file; \<open>exit-now\<close> is looked up as an
  account too, which the server does not know; the loop ends at the \<open>Exit\<close> that follows.
\<close>

theorem interactive_sentinel_witness:
  "interactive account_server [''EXIT''] [] empty_fs =
     Some \<lparr>exit_code = 0, stdout = [prompt], final_fs = empty_fs\<rparr>
   \<and> interactive account_server [''  exit  ''] [] empty_fs =
     Some \<lparr>exit_code = 0, stdout = [prompt], final_fs = empty_fs\<rparr>
   \<and> interactive account_server [''octocat'', ''exit-now'', ''Exit''] [] empty_fs =
     Some \<lparr>exit_code = 0,
           stdout = [prompt, Line ''Logging repos to github_repos.json...'',
                     Line ''Repos logged to github_repos.json'',
                     prompt, ExnLine HTTPError, Line ''Error fetching data.'',
                     prompt],
           final_fs = empty_fs\<lparr>files := [''github_repos.json'' \<mapsto> sample_file]\<rparr>\<rparr>
   \<and> map req_url (requests (the (fetcher account_server ''exit-now''))) =
       [''https://api.github.com/users/exit-now/repos'']"
proof -
  let ?fs = "empty_fs\<lparr>files := [''github_repos.json'' \<mapsto> sample_file]\<rparr>"
  let ?out = "[prompt, Line ''Logging repos to github_repos.json...'',
               Line ''Repos logged to github_repos.json'']"
  have s1: "py_lower (py_strip ''EXIT'') = ''exit''"
    and s2: "py_lower (py_strip ''  exit  '') = ''exit''"
    and s3: "py_lower (py_strip ''Exit'') = ''exit''"
    and s4: "py_lower (py_strip ''exit-now'') \<noteq> ''exit''"
    and s5: "py_lower (py_strip ''octocat'') \<noteq> ''exit''"
    by code_simp+
  have known: "account_server (make_request (get_url ''octocat'') 1) =
               Got (json_response (PList (map PDict [sample_repo])))"
    by (simp add: account_server_def make_request_def get_url_def)
  have unknown: "account_server (make_request (get_url ''exit-now'') 1) =
               Got \<lparr>status_code = 404,
                headers = [''content-type'' \<mapsto> ''application/json; charset=utf-8''],
                json_body = Some (PDict [(''message'', PStr ''Not Found'')])\<rparr>"
    by (simp add: account_server_def make_request_def get_url_def)
  have "handle_response (json_response (PList (map PDict [sample_repo])))
          (records_of (\<lambda>p. []) 1 1) = Break [summary sample_repo]"
    using handle_response_short [OF json_page_json_response [of "[sample_repo]"], of "[]"]
    by (simp add: records_of_def)
  from fetcher_last(3) [of 1 account_server "''octocat''" "\<lambda>p. []", OF le_refl full_pages_empty
         known this]
  have f1: "fetcher account_server ''octocat'' =
        Some \<lparr>result = Some [summary sample_repo], printed = [],
              requests = requests_of (get_url ''octocat'') 1 (Suc 1)\<rparr>" .
  have "handle_response \<lparr>status_code = 404,
                headers = [''content-type'' \<mapsto> ''application/json; charset=utf-8''],
                json_body = Some (PDict [(''message'', PStr ''Not Found'')])\<rparr>
          (records_of (\<lambda>p. []) 1 1) = Raise HTTPError"
    by (simp add: handle_response_def http_error_def)
  from fetcher_last(2) [of 1 account_server "''exit-now''" "\<lambda>p. []", OF le_refl
         full_pages_empty unknown this]
  have f2: "fetcher account_server ''exit-now'' =
        Some \<lparr>result = None, printed = [ExnLine HTTPError],
              requests = requests_of (get_url ''exit-now'') 1 (Suc 1)\<rparr>"
    by (simp add: handler_line_def)
  have "interactive account_server [''EXIT''] [] empty_fs =
     Some \<lparr>exit_code = 0, stdout = [prompt], final_fs = empty_fs\<rparr>"
    using interactive_sentinel [of "''EXIT''" account_server "[]" "[]" empty_fs]
    by (simp add: s1)
  moreover have "interactive account_server [''  exit  ''] [] empty_fs =
     Some \<lparr>exit_code = 0, stdout = [prompt], final_fs = empty_fs\<rparr>"
    using interactive_sentinel [of "''  exit  ''" account_server "[]" "[]" empty_fs]
    by (simp add: s2)
  moreover have "interactive account_server [''octocat'', ''exit-now'', ''Exit''] [] empty_fs =
     Some \<lparr>exit_code = 0,
           stdout = ?out @ [prompt, ExnLine HTTPError, Line ''Error fetching data.'', prompt],
           final_fs = ?fs\<rparr>"
  proof -
    have "interactive account_server [''octocat'', ''exit-now'', ''Exit''] [] empty_fs =
          interactive account_server [''exit-now'', ''Exit''] ?out ?fs"
      using interactive_sentinel
              [of "''octocat''" account_server "[''exit-now'', ''Exit'']" "[]" empty_fs]
      by (simp add: s5 f1 write_sample)
    also have "\<dots> = interactive account_server [''Exit'']
                      (?out @ [prompt, ExnLine HTTPError, Line ''Error fetching data.'']) ?fs"
      using interactive_sentinel [of "''exit-now''" account_server "[''Exit'']" ?out ?fs]
      by (simp add: s4 f2)
    also have "\<dots> = Some \<lparr>exit_code = 0,
           stdout = ?out @ [prompt, ExnLine HTTPError, Line ''Error fetching data.'', prompt],
           final_fs = ?fs\<rparr>"
      using interactive_sentinel [of "''Exit''" account_server "[]"
              "?out @ [prompt, ExnLine HTTPError, Line ''Error fetching data.'']" ?fs]
      by (simp add: s3)
    finally show ?thesis .
  qed
  moreover have "map req_url (requests (the (fetcher account_server ''exit-now''))) =
       [''https://api.github.com/users/exit-now/repos'']"
    using interactive_sentinel [of "''exit-now''" account_server "[]" "[]" empty_fs] f2
    by (simp add: requests_of_def)
  ultimately show ?thesis by simp
qed

section \<open>Reading back what was written\<close>






lemma char_of_of_char_div_mod: "char_of (16 * ((of_char c :: nat) div 16) + of_char c mod 16) = c"
  by simp


















lemma newline_indent_Cons: "newline_indent level = CHR 0x0A # replicate (4 * level) (CHR '' '')"
  by (simp add: newline_indent_def)

























section \<open>Retries\<close>

















end
